theory Spec2Isabelle
  imports Complex_Main "HOL-Library.List_Lexorder" "HOL-Library.Char_ord"
begin

section \<open>Personal Banking App: the domain layer (models.py) and the alert evaluator (gui.py)\<close>

text \<open>
  The development embeds the functions of \<^verbatim>\<open>models.py\<close> and the two alert checks of
  \<^verbatim>\<open>gui.py\<close>.  Python exceptions are values of the type \<open>error\<close>; a function that may
  raise returns \<open>error + 'a\<close> with \<open>Inl\<close> for the exception.  Messages raised by the
  application are kept verbatim; messages of the standard library are shortened.
\<close>

datatype error =
    ValueError string
  | IntegrityError string
  | OverflowError string
  | AttributeError string

subsection \<open>The standard library's \<^verbatim>\<open>datetime.date\<close>\<close>

text \<open>
  A \<^verbatim>\<open>datetime.date\<close> is a triple of Python integers.  The constructor accepts exactly
  the triples with \<open>1 \<le> year \<le> 9999\<close>, \<open>1 \<le> month \<le> 12\<close> and
  \<open>1 \<le> day \<le> days_in_month year month\<close>, and raises \<^verbatim>\<open>ValueError\<close> otherwise.
\<close>

record date =
  year :: int
  month :: int
  day :: int

definition MINYEAR :: int where "MINYEAR = 1"
definition MAXYEAR :: int where "MAXYEAR = 9999"

definition is_leap :: "int \<Rightarrow> bool" where
  "is_leap y = (y mod 4 = 0 \<and> (y mod 100 \<noteq> 0 \<or> y mod 400 = 0))"

definition days_in_month :: "int \<Rightarrow> int \<Rightarrow> int" where
  "days_in_month y m =
     (if m = 2 \<and> is_leap y then 29
      else if m = 2 then 28
      else if m = 4 \<or> m = 6 \<or> m = 9 \<or> m = 11 then 30
      else 31)"

definition valid_date :: "date \<Rightarrow> bool" where
  "valid_date d =
     (MINYEAR \<le> year d \<and> year d \<le> MAXYEAR \<and> 1 \<le> month d \<and> month d \<le> 12 \<and>
      1 \<le> day d \<and> day d \<le> days_in_month (year d) (month d))"

text \<open>\<^verbatim>\<open>datetime(year, month, day).date()\<close>: the checks of \<^verbatim>\<open>_check_date_fields\<close>, in its order.\<close>

definition mk_date :: "int \<Rightarrow> int \<Rightarrow> int \<Rightarrow> error + date" where
  "mk_date y m d =
     (if \<not> (MINYEAR \<le> y \<and> y \<le> MAXYEAR) then Inl (ValueError ''year is out of range'')
      else if \<not> (1 \<le> m \<and> m \<le> 12) then Inl (ValueError ''month must be in 1..12'')
      else if \<not> (1 \<le> d \<and> d \<le> days_in_month y m)
        then Inl (ValueError ''day is out of range for month'')
      else Inr \<lparr>year = y, month = m, day = d\<rparr>)"

text \<open>\<^verbatim>\<open>date.toordinal()\<close>: 1 January of year 1 is day 1.\<close>

definition days_before_year :: "int \<Rightarrow> int" where
  "days_before_year y = (y - 1) * 365 + (y - 1) div 4 - (y - 1) div 100 + (y - 1) div 400"

definition DAYS_BEFORE_MONTH :: "int list" where
  "DAYS_BEFORE_MONTH = [0, 31, 59, 90, 120, 151, 181, 212, 243, 273, 304, 334]"

definition days_before_month :: "int \<Rightarrow> int \<Rightarrow> int" where
  "days_before_month y m =
     DAYS_BEFORE_MONTH ! nat (m - 1) + (if 2 < m \<and> is_leap y then 1 else 0)"

definition toordinal :: "date \<Rightarrow> int" where
  "toordinal d = days_before_year (year d) + days_before_month (year d) (month d) + day d"

definition MAXORDINAL :: int where "MAXORDINAL = 3652059"

text \<open>
  \<^verbatim>\<open>d + timedelta(weeks=1)\<close>: the date seven days later, \<^verbatim>\<open>OverflowError\<close> when that is
  past 31 December 9999.  Lemma \<open>date_add_week_ordinal\<close> below relates it to \<open>toordinal\<close>.
\<close>

definition date_add_week :: "date \<Rightarrow> error + date" where
  "date_add_week d =
     (let dim = days_in_month (year d) (month d) in
      if day d + 7 \<le> dim then Inr (d\<lparr>day := day d + 7\<rparr>)
      else if month d < 12 then Inr \<lparr>year = year d, month = month d + 1, day = day d + 7 - dim\<rparr>
      else if year d < MAXYEAR then Inr \<lparr>year = year d + 1, month = 1, day = day d + 7 - dim\<rparr>
      else Inl (OverflowError ''result out of range''))"

subsection \<open>The due-date rollover rule\<close>

text \<open>
  \<^verbatim>\<open>calculate_next_due_date(current_due_date, frequency)\<close>, branch by branch.  The last
  branch is written out as the source writes it.  Python's \<^verbatim>\<open>//\<close> and \<^verbatim>\<open>%\<close> round
  towards minus infinity, as \<open>div\<close> and \<open>mod\<close> on \<open>int\<close> do.
\<close>

definition calculate_next_due_date :: "date \<Rightarrow> string \<Rightarrow> error + date" where
  "calculate_next_due_date current_due_date frequency =
     (if frequency = ''Weekly'' then date_add_week current_due_date
      else if frequency = ''Monthly'' then
        (let month0 = month current_due_date;
             year1 = year current_due_date + month0 div 12;
             month1 = month0 mod 12 + 1;
             day1 = min (day current_due_date) 28
         in mk_date year1 month1 day1)
      else if frequency = ''Yearly'' then
        mk_date (year current_due_date + 1) (month current_due_date) (day current_due_date)
      else
        (let month0 = month current_due_date;
             year1 = year current_due_date + month0 div 12;
             month1 = month0 mod 12 + 1;
             day1 = min (day current_due_date) 28
         in mk_date year1 month1 day1))"

subsection \<open>Date text: \<^verbatim>\<open>strftime\<close> and \<^verbatim>\<open>strptime\<close>\<close>

text \<open>
  The store keeps dates and months as TEXT.  \<^verbatim>\<open>strftime\<close> formats through the C
  library: \<^verbatim>\<open>%m\<close> and \<^verbatim>\<open>%d\<close> are written on two digits, zero padded; \<^verbatim>\<open>%Y\<close> is
  the year in decimal, which glibc does not pad (year 999 is written \<^verbatim>\<open>999\<close>).
\<close>

definition digit_char :: "int \<Rightarrow> char" where
  "digit_char n = ''0123456789'' ! nat (n mod 10)"

definition pad2 :: "int \<Rightarrow> string" where
  "pad2 n = [digit_char (n div 10), digit_char n]"

definition pad4 :: "int \<Rightarrow> string" where
  "pad4 n = [digit_char (n div 1000), digit_char (n div 100), digit_char (n div 10), digit_char n]"

text \<open>\<^verbatim>\<open>%Y\<close> for the years of a date, 1 to 9999: one to four digits.\<close>

definition year_text :: "int \<Rightarrow> string" where
  "year_text y =
     (if y < 10 then [digit_char y]
      else if y < 100 then [digit_char (y div 10), digit_char y]
      else if y < 1000 then [digit_char (y div 100), digit_char (y div 10), digit_char y]
      else pad4 y)"

definition strftime_Ymd :: "date \<Rightarrow> string" where
  "strftime_Ymd d = year_text (year d) @ ''-'' @ pad2 (month d) @ ''-'' @ pad2 (day d)"

definition strftime_Ym :: "date \<Rightarrow> string" where
  "strftime_Ym d = year_text (year d) @ ''-'' @ pad2 (month d)"

text \<open>
  \<^verbatim>\<open>datetime.strptime(s, '%Y-%m-%d').date()\<close>.  The library matches the text against
  \<^verbatim>\<open>(\d\d\d\d)-(1[0-2]|0[1-9]|[1-9])-(3[0-1]|[1-2]\d|0[1-9]|[1-9]| [1-9])\<close>, requires that
  nothing remains after the match, and then builds the date, which checks it.
\<close>

definition is_digit :: "char \<Rightarrow> bool" where
  "is_digit c = (CHR ''0'' \<le> c \<and> c \<le> CHR ''9'')"

definition is_digit19 :: "char \<Rightarrow> bool" where
  "is_digit19 c = (CHR ''1'' \<le> c \<and> c \<le> CHR ''9'')"

definition digit_val :: "char \<Rightarrow> int" where
  "digit_val c = int (of_char c) - 48"

definition int_of_digits :: "string \<Rightarrow> int" where
  "int_of_digits t = foldl (\<lambda>n c. if c = CHR '' '' then n else 10 * n + digit_val c) 0 t"

fun month_token :: "string \<Rightarrow> bool" where
  "month_token [a] = is_digit19 a"
| "month_token [a, b] =
     ((a = CHR ''1'' \<and> CHR ''0'' \<le> b \<and> b \<le> CHR ''2'') \<or> (a = CHR ''0'' \<and> is_digit19 b))"
| "month_token t = False"

fun day_token :: "string \<Rightarrow> bool" where
  "day_token [a] = is_digit19 a"
| "day_token [a, b] =
     ((a = CHR ''3'' \<and> CHR ''0'' \<le> b \<and> b \<le> CHR ''1'') \<or>
      (CHR ''1'' \<le> a \<and> a \<le> CHR ''2'' \<and> is_digit b) \<or>
      (a = CHR ''0'' \<and> is_digit19 b) \<or>
      (a = CHR '' '' \<and> is_digit19 b))"
| "day_token t = False"

definition strptime_Ymd :: "string \<Rightarrow> error + date" where
  "strptime_Ymd s =
     (let y_str = take 4 s;
          rest = drop 5 s;
          m_str = takeWhile (\<lambda>c. c \<noteq> CHR ''-'') rest;
          d_str = drop (length m_str + 1) rest
      in if length y_str = 4 \<and> list_all is_digit y_str \<and> take 1 (drop 4 s) = ''-'' \<and>
            month_token m_str \<and> take 1 (drop (length m_str) rest) = ''-'' \<and> day_token d_str
         then mk_date (int_of_digits y_str) (int_of_digits m_str) (int_of_digits d_str)
         else Inl (ValueError ''time data does not match format''))"

subsection \<open>The store\<close>

text \<open>
  The five tables of \<^verbatim>\<open>init_db\<close>.  A table is the list of its rows in storage order,
  with the counter that \<^verbatim>\<open>AUTOINCREMENT\<close> keeps for it.  TEXT columns are strings,
  compared bytewise as the store compares them; INTEGER columns are \<open>int\<close>.  A REAL column
  holds IEEE binary64 numbers; a finite one is the real number it denotes, so the type is
  \<open>real\<close>, and comparing two of them is comparing reals.  Arithmetic on them rounds, and
  is modelled below.  Infinities are outside the model.
\<close>

record user_row =
  u_id :: int
  u_username :: string
  u_password :: string

record category_row =
  c_id :: int
  c_name :: string
  c_user_id :: int

record expense_row =
  e_id :: int
  e_date :: string
  e_category :: string
  e_amount :: real
  e_user_id :: int

record payment_row =
  p_id :: int
  p_name :: string
  p_amount :: real
  p_due_date :: string
  p_frequency :: string
  p_user_id :: int

record budget_row =
  b_id :: int
  b_month :: string
  b_amount :: real
  b_user_id :: int

record database =
  Users :: "user_row list"
  Users_seq :: int
  Categories :: "category_row list"
  Categories_seq :: int
  Expenses :: "expense_row list"
  Expenses_seq :: int
  RecurringPayments :: "payment_row list"
  RecurringPayments_seq :: int
  Budget :: "budget_row list"
  Budget_seq :: int

text \<open>\<^verbatim>\<open>init_db\<close> on a fresh file: every table exists and is empty.\<close>

definition init_db :: database where
  "init_db = \<lparr>Users = [], Users_seq = 0, Categories = [], Categories_seq = 0,
              Expenses = [], Expenses_seq = 0, RecurringPayments = [], RecurringPayments_seq = 0,
              Budget = [], Budget_seq = 0\<rparr>"

text \<open>
  \<^verbatim>\<open>INTEGER PRIMARY KEY AUTOINCREMENT\<close>: one more than the largest row id the table has
  ever held.
\<close>

definition next_rowid :: "int \<Rightarrow> int list \<Rightarrow> int" where
  "next_rowid seq ids = fold max ids seq + 1"

text \<open>\<^verbatim>\<open>FOREIGN KEY (user_id) REFERENCES Users(id)\<close>, enforced on every connection.\<close>

definition user_exists :: "int \<Rightarrow> database \<Rightarrow> bool" where
  "user_exists uid db = (uid \<in> set (map u_id (Users db)))"

text \<open>
  The INSERT statements.  A column that the statement does not name is \<open>None\<close> (NULL, as
  no column of the schema has a default); a NOT NULL column refuses it.
\<close>

definition insert_Users :: "string \<Rightarrow> string \<Rightarrow> database \<Rightarrow> error + database \<times> int" where
  "insert_Users username password db =
     (if username \<in> set (map u_username (Users db))
      then Inl (IntegrityError ''UNIQUE constraint failed: Users.username'')
      else let rowid = next_rowid (Users_seq db) (map u_id (Users db)) in
        Inr (db\<lparr>Users := Users db @ [\<lparr>u_id = rowid, u_username = username, u_password = password\<rparr>],
                 Users_seq := rowid\<rparr>, rowid))"

definition insert_Categories :: "string option \<Rightarrow> int option \<Rightarrow> database \<Rightarrow> error + database \<times> int" where
  "insert_Categories name user_id db =
     (case name of
        None \<Rightarrow> Inl (IntegrityError ''NOT NULL constraint failed: Categories.name'')
      | Some n \<Rightarrow>
         (case user_id of
            None \<Rightarrow> Inl (IntegrityError ''NOT NULL constraint failed: Categories.user_id'')
          | Some u \<Rightarrow>
             if \<not> user_exists u db then Inl (IntegrityError ''FOREIGN KEY constraint failed'')
             else let rowid = next_rowid (Categories_seq db) (map c_id (Categories db)) in
               Inr (db\<lparr>Categories := Categories db @ [\<lparr>c_id = rowid, c_name = n, c_user_id = u\<rparr>],
                        Categories_seq := rowid\<rparr>, rowid)))"

definition insert_Expenses :: "string \<Rightarrow> string \<Rightarrow> real \<Rightarrow> int \<Rightarrow> database \<Rightarrow> error + database \<times> int" where
  "insert_Expenses date category amount user_id db =
     (if \<not> user_exists user_id db then Inl (IntegrityError ''FOREIGN KEY constraint failed'')
      else let rowid = next_rowid (Expenses_seq db) (map e_id (Expenses db)) in
        Inr (db\<lparr>Expenses := Expenses db @
                   [\<lparr>e_id = rowid, e_date = date, e_category = category, e_amount = amount,
                     e_user_id = user_id\<rparr>],
                 Expenses_seq := rowid\<rparr>, rowid))"

definition insert_RecurringPayments ::
  "string \<Rightarrow> real \<Rightarrow> string \<Rightarrow> string \<Rightarrow> int \<Rightarrow> database \<Rightarrow> error + database \<times> int" where
  "insert_RecurringPayments name amount due_date frequency user_id db =
     (if \<not> user_exists user_id db then Inl (IntegrityError ''FOREIGN KEY constraint failed'')
      else let rowid = next_rowid (RecurringPayments_seq db) (map p_id (RecurringPayments db)) in
        Inr (db\<lparr>RecurringPayments := RecurringPayments db @
                   [\<lparr>p_id = rowid, p_name = name, p_amount = amount, p_due_date = due_date,
                     p_frequency = frequency, p_user_id = user_id\<rparr>],
                 RecurringPayments_seq := rowid\<rparr>, rowid))"

definition insert_Budget :: "string \<Rightarrow> real \<Rightarrow> int \<Rightarrow> database \<Rightarrow> error + database \<times> int" where
  "insert_Budget month_text amount user_id db =
     (if \<not> user_exists user_id db then Inl (IntegrityError ''FOREIGN KEY constraint failed'')
      else let rowid = next_rowid (Budget_seq db) (map b_id (Budget db)) in
        Inr (db\<lparr>Budget := Budget db @
                   [\<lparr>b_id = rowid, b_month = month_text, b_amount = amount, b_user_id = user_id\<rparr>],
                 Budget_seq := rowid\<rparr>, rowid))"

subsection \<open>Arithmetic on REAL values\<close>

text \<open>
  Every operation on binary64 numbers returns the exact result rounded to the nearest
  binary64 number, ties to the even one.  The numbers around \<open>x\<close> are the multiples of a
  power of two, \<open>binary64_quantum x\<close>: 52 binary places below the leading bit of \<open>x\<close>, and
  no finer than 2 to the power -1074.  Results beyond the largest binary64 number are outside the
  model.
\<close>

definition round_half_even :: "real \<Rightarrow> int" where
  "round_half_even r =
     (let f = \<lfloor>r\<rfloor>; rest = r - of_int f in
      if rest < 1 / 2 then f
      else if 1 / 2 < rest then f + 1
      else if even f then f else f + 1)"

definition binary64_quantum :: "real \<Rightarrow> real" where
  "binary64_quantum x = 2 powr (of_int (max \<lfloor>log 2 \<bar>x\<bar>\<rfloor> (- 1022)) - 52)"

definition round_binary64 :: "real \<Rightarrow> real" where
  "round_binary64 x =
     (if x = 0 then 0
      else binary64_quantum x * of_int (round_half_even (x / binary64_quantum x)))"

text \<open>
  SQLite, from release 3.43 on, sums REAL values by Kahan-Babuska-Neumaier summation: a
  running sum and a running error term, every operation rounded, added up at the end.
  \<^verbatim>\<open>
  t = s + r;
  if( fabs(s) > fabs(r) ){ rErr += (s - t) + r; }else{ rErr += (r - t) + s; }
  rSum = t;
  \<close>
\<close>

definition kahanBabuskaNeumaierStep :: "real \<times> real \<Rightarrow> real \<Rightarrow> real \<times> real" where
  "kahanBabuskaNeumaierStep p r =
     (let s = fst p;
          t = round_binary64 (s + r);
          c = (if \<bar>s\<bar> > \<bar>r\<bar> then round_binary64 (round_binary64 (s - t) + r)
               else round_binary64 (round_binary64 (r - t) + s))
      in (t, round_binary64 (snd p + c)))"

definition binary64_sum :: "real list \<Rightarrow> real option" where
  "binary64_sum xs =
     (let p = foldl kahanBabuskaNeumaierStep (0, 0) xs in Some (round_binary64 (fst p + snd p)))"

subsection \<open>Domain services\<close>

text \<open>
  Every operation takes the store and returns its result together with the store it
  leaves.  An operation that raises before its write leaves the store as it found it.
\<close>

definition User_add_user :: "string \<Rightarrow> string \<Rightarrow> database \<Rightarrow> (error + int) \<times> database" where
  "User_add_user username password db =
     (case insert_Users username password db of
        Inl (IntegrityError _) \<Rightarrow> (Inl (ValueError ''Username already exists.''), db)
      | Inl e \<Rightarrow> (Inl e, db)
      | Inr (db', rowid) \<Rightarrow> (Inr rowid, db'))"

definition User_authenticate :: "string \<Rightarrow> string \<Rightarrow> database \<Rightarrow> int option" where
  "User_authenticate username password db =
     (case filter (\<lambda>r. u_username r = username \<and> u_password r = password) (Users db) of
        [] \<Rightarrow> None
      | result # _ \<Rightarrow> Some (u_id result))"

text \<open>
  \<^verbatim>\<open>Category.add(name)\<close> takes the name only, and its INSERT names the column
  \<^verbatim>\<open>name\<close> only.  Any \<^verbatim>\<open>sqlite3.IntegrityError\<close> is reported as a duplicate.
\<close>

definition Category_add :: "string \<Rightarrow> database \<Rightarrow> (error + int) \<times> database" where
  "Category_add name db =
     (if name = [] then (Inl (ValueError ''Category name must be a non-empty string.''), db)
      else case insert_Categories (Some name) None db of
             Inl (IntegrityError _) \<Rightarrow> (Inl (ValueError ''Category already exists.''), db)
           | Inl e \<Rightarrow> (Inl e, db)
           | Inr (db', rowid) \<Rightarrow> (Inr rowid, db'))"

definition Category_get_all :: "int \<Rightarrow> database \<Rightarrow> string list" where
  "Category_get_all user_id db =
     map c_name (sort_key c_name (filter (\<lambda>r. c_user_id r = user_id) (Categories db)))"

definition Category_delete :: "string \<Rightarrow> int \<Rightarrow> database \<Rightarrow> database" where
  "Category_delete name user_id db =
     db\<lparr>Categories := filter (\<lambda>r. \<not> (c_name r = name \<and> c_user_id r = user_id)) (Categories db)\<rparr>"

definition Expense_add ::
  "string \<Rightarrow> string \<Rightarrow> real \<Rightarrow> int \<Rightarrow> database \<Rightarrow> (error + unit) \<times> database" where
  "Expense_add date category amount user_id db =
     (case insert_Expenses date category amount user_id db of
        Inl e \<Rightarrow> (Inl e, db)
      | Inr (db', rowid) \<Rightarrow> (Inr (), db'))"

text \<open>
  \<^verbatim>\<open>ORDER BY date DESC\<close>: descending by the date text.  SQL leaves the order of rows
  with equal keys open; the model takes the reverse of the stable ascending sort.
\<close>

definition Expense_get_all :: "int \<Rightarrow> database \<Rightarrow> (int \<times> string \<times> string \<times> real) list" where
  "Expense_get_all user_id db =
     map (\<lambda>r. (e_id r, e_date r, e_category r, e_amount r))
       (rev (sort_key e_date (filter (\<lambda>r. e_user_id r = user_id) (Expenses db))))"

text \<open>
  \<^verbatim>\<open>SUM(amount)\<close> is NULL over no rows.  Over rows it is the floating-point sum that the
  store's engine computes, which is NULL when that is not a number.  How the engine adds
  depends on its release, so it is a parameter, \<open>sum_aggregate\<close>, of everything that
  sums; \<open>binary64_sum\<close> above is the engine of SQLite 3.43 and later.
\<close>

definition sql_SUM :: "(real list \<Rightarrow> real option) \<Rightarrow> real list \<Rightarrow> real option" where
  "sql_SUM sum_aggregate xs = (if xs = [] then None else sum_aggregate xs)"

text \<open>
  \<^verbatim>\<open>return result[0] if result[0] else 0.0\<close>: NULL and a sum of zero are both falsy.
\<close>

definition Expense_get_spending_since ::
  "(real list \<Rightarrow> real option) \<Rightarrow> string \<Rightarrow> int \<Rightarrow> database \<Rightarrow> real" where
  "Expense_get_spending_since sum_aggregate start_date user_id db =
     (case sql_SUM sum_aggregate (map e_amount
             (filter (\<lambda>r. start_date \<le> e_date r \<and> e_user_id r = user_id) (Expenses db))) of
        None \<Rightarrow> 0
      | Some s \<Rightarrow> if s \<noteq> 0 then s else 0)"

definition Expense_update ::
  "int \<Rightarrow> string \<Rightarrow> string \<Rightarrow> real \<Rightarrow> int \<Rightarrow> database \<Rightarrow> (error + unit) \<times> database" where
  "Expense_update expense_id new_date new_category new_amount user_id db =
     (if filter (\<lambda>r. e_id r = expense_id \<and> e_user_id r = user_id) (Expenses db) = []
      then (Inl (ValueError ''Expense not found or does not belong to the user.''), db)
      else (Inr (),
            db\<lparr>Expenses :=
                 map (\<lambda>r. if e_id r = expense_id \<and> e_user_id r = user_id
                           then r\<lparr>e_date := new_date, e_category := new_category,
                                  e_amount := new_amount\<rparr>
                           else r) (Expenses db)\<rparr>))"

definition Expense_delete :: "int \<Rightarrow> int \<Rightarrow> database \<Rightarrow> (error + unit) \<times> database" where
  "Expense_delete expense_id user_id db =
     (if filter (\<lambda>r. e_id r = expense_id \<and> e_user_id r = user_id) (Expenses db) = []
      then (Inl (ValueError ''Expense not found or does not belong to the user.''), db)
      else (Inr (),
            db\<lparr>Expenses :=
                 filter (\<lambda>r. \<not> (e_id r = expense_id \<and> e_user_id r = user_id)) (Expenses db)\<rparr>))"

definition RecurringPayment_add ::
  "string \<Rightarrow> real \<Rightarrow> string \<Rightarrow> string \<Rightarrow> int \<Rightarrow> database \<Rightarrow> (error + unit) \<times> database" where
  "RecurringPayment_add name amount due_date frequency user_id db =
     (case insert_RecurringPayments name amount due_date frequency user_id db of
        Inl e \<Rightarrow> (Inl e, db)
      | Inr (db', rowid) \<Rightarrow> (Inr (), db'))"

definition RecurringPayment_get_all ::
  "int \<Rightarrow> database \<Rightarrow> (int \<times> string \<times> real \<times> string \<times> string) list" where
  "RecurringPayment_get_all user_id db =
     map (\<lambda>r. (p_id r, p_name r, p_amount r, p_due_date r, p_frequency r))
       (sort_key p_due_date (filter (\<lambda>r. p_user_id r = user_id) (RecurringPayments db)))"

definition RecurringPayment_delete :: "int \<Rightarrow> int \<Rightarrow> database \<Rightarrow> (error + unit) \<times> database" where
  "RecurringPayment_delete payment_id user_id db =
     (if filter (\<lambda>r. p_id r = payment_id \<and> p_user_id r = user_id) (RecurringPayments db) = []
      then (Inl (ValueError ''Recurring payment not found or does not belong to the user.''), db)
      else (Inr (),
            db\<lparr>RecurringPayments :=
                 filter (\<lambda>r. \<not> (p_id r = payment_id \<and> p_user_id r = user_id))
                   (RecurringPayments db)\<rparr>))"

definition RecurringPayment_mark_as_paid ::
  "int \<Rightarrow> string \<Rightarrow> int \<Rightarrow> database \<Rightarrow> (error + unit) \<times> database" where
  "RecurringPayment_mark_as_paid payment_id payment_date user_id db =
     (case filter (\<lambda>r. p_id r = payment_id \<and> p_user_id r = user_id) (RecurringPayments db) of
        [] \<Rightarrow> (Inl (ValueError ''Recurring payment not found or does not belong to the user.''), db)
      | result # _ \<Rightarrow>
         (let frequency = p_frequency result in
          case strptime_Ymd payment_date of
            Inl e \<Rightarrow> (Inl e, db)
          | Inr paid_on \<Rightarrow>
             (case calculate_next_due_date paid_on frequency of
                Inl e \<Rightarrow> (Inl e, db)
              | Inr next_due_date \<Rightarrow>
                 (let next_due_date_str = strftime_Ymd next_due_date in
                  (Inr (),
                   db\<lparr>RecurringPayments :=
                        map (\<lambda>r. if p_id r = payment_id \<and> p_user_id r = user_id
                                  then r\<lparr>p_due_date := next_due_date_str\<rparr>
                                  else r) (RecurringPayments db)\<rparr>)))))"

text \<open>
  The class \<^verbatim>\<open>RecurringPayment\<close> defines \<^verbatim>\<open>add\<close>, \<^verbatim>\<open>get_all\<close>, \<^verbatim>\<open>delete\<close> and
  \<^verbatim>\<open>mark_as_paid\<close>, and nothing else.  Looking up \<^verbatim>\<open>RecurringPayment.update_due_date\<close>,
  as the alert evaluator does, raises \<^verbatim>\<open>AttributeError\<close> before any argument is used.
\<close>

definition RecurringPayment_update_due_date ::
  "int \<Rightarrow> string \<Rightarrow> database \<Rightarrow> (error + unit) \<times> database" where
  "RecurringPayment_update_due_date payment_id new_due_date db =
     (Inl (AttributeError ''RecurringPayment has no attribute update_due_date''), db)"

definition Budget_set_monthly_budget ::
  "string \<Rightarrow> real \<Rightarrow> int \<Rightarrow> database \<Rightarrow> (error + unit) \<times> database" where
  "Budget_set_monthly_budget month_text amount user_id db =
     (case filter (\<lambda>r. b_month r = month_text \<and> b_user_id r = user_id) (Budget db) of
        result # _ \<Rightarrow>
          (Inr (),
           db\<lparr>Budget := map (\<lambda>r. if b_month r = month_text \<and> b_user_id r = user_id
                                  then r\<lparr>b_amount := amount\<rparr> else r) (Budget db)\<rparr>)
      | [] \<Rightarrow>
          (case insert_Budget month_text amount user_id db of
             Inl e \<Rightarrow> (Inl e, db)
           | Inr (db', rowid) \<Rightarrow> (Inr (), db')))"

definition Budget_get_monthly_budget :: "string \<Rightarrow> int \<Rightarrow> database \<Rightarrow> real option" where
  "Budget_get_monthly_budget month_text user_id db =
     (case filter (\<lambda>r. b_month r = month_text \<and> b_user_id r = user_id) (Budget db) of
        [] \<Rightarrow> None
      | result # _ \<Rightarrow> Some (b_amount result))"

subsection \<open>The alert evaluator\<close>

text \<open>
  The dialogs the evaluator opens, in order.  \<^verbatim>\<open>datetime.now().date()\<close> is the
  parameter \<open>today\<close>, and \<^verbatim>\<open>self.current_user_id\<close> the parameter \<open>current_user_id\<close>.
\<close>

datatype notification =
    PaymentDueTomorrow string real
  | PaymentDueToday string real
  | BudgetExceeded real real
  | ErrorDialog error

text \<open>
  The body of the \<^verbatim>\<open>for\<close> loop of \<^verbatim>\<open>check_recurring_payments\<close>.  An exception
  leaves the loop; the dialogs shown so far stay shown.
\<close>

fun payments_loop ::
  "date \<Rightarrow> (int \<times> string \<times> real \<times> string \<times> string) list \<Rightarrow> database \<Rightarrow> notification list \<Rightarrow>
   (error + unit) \<times> notification list \<times> database" where
  "payments_loop today [] db shown = (Inr (), shown, db)"
| "payments_loop today ((payment_id, name, amount, due_date_str, frequency) # payments) db shown =
     (case strptime_Ymd due_date_str of
        Inl e \<Rightarrow> (Inl e, shown, db)
      | Inr due_date \<Rightarrow>
         (let days_until_due = toordinal due_date - toordinal today in
          if days_until_due = 1 then
            payments_loop today payments db (shown @ [PaymentDueTomorrow name amount])
          else if days_until_due = 0 then
            payments_loop today payments db (shown @ [PaymentDueToday name amount])
          else if days_until_due < 0 then
            (case calculate_next_due_date due_date frequency of
               Inl e \<Rightarrow> (Inl e, shown, db)
             | Inr new_due_date \<Rightarrow>
                (case RecurringPayment_update_due_date payment_id (strftime_Ymd new_due_date) db of
                   (Inl e, db') \<Rightarrow> (Inl e, shown, db')
                 | (Inr u, db') \<Rightarrow> payments_loop today payments db' shown))
          else payments_loop today payments db shown))"

text \<open>\<^verbatim>\<open>except Exception\<close>: the exception is logged and shown in an error dialog.\<close>

definition check_recurring_payments ::
  "date \<Rightarrow> int \<Rightarrow> database \<Rightarrow> notification list \<times> database" where
  "check_recurring_payments today current_user_id db =
     (case payments_loop today (RecurringPayment_get_all current_user_id db) db [] of
        (Inl e, shown, db') \<Rightarrow> (shown @ [ErrorDialog e], db')
      | (Inr u, shown, db') \<Rightarrow> (shown, db'))"

definition check_budget ::
  "(real list \<Rightarrow> real option) \<Rightarrow> date \<Rightarrow> int \<Rightarrow> database \<Rightarrow> notification list" where
  "check_budget sum_aggregate today current_user_id db =
     (let current_month = strftime_Ym today in
      case Budget_get_monthly_budget current_month current_user_id db of
        None \<Rightarrow> []
      | Some budget_amount \<Rightarrow>
         (let start_of_month = strftime_Ymd (today\<lparr>day := 1\<rparr>);
              spending =
                Expense_get_spending_since sum_aggregate start_of_month current_user_id db
          in if spending > budget_amount then [BudgetExceeded budget_amount spending] else []))"

subsection \<open>Store invariants and sample stores\<close>

text \<open>
  The schema gives \<^verbatim>\<open>Budget\<close> no UNIQUE constraint on \<open>(month, user_id)\<close>; the rows
  stay unique on that key because \<^verbatim>\<open>set_monthly_budget\<close> is their only writer.
\<close>

definition budget_key_unique :: "database \<Rightarrow> bool" where
  "budget_key_unique db = distinct (map (\<lambda>r. (b_month r, b_user_id r)) (Budget db))"

text \<open>A store as \<^verbatim>\<open>init_db\<close> leaves it, with one registered user.\<close>

definition store_one_user :: database where
  "store_one_user =
     init_db\<lparr>Users := [\<lparr>u_id = 1, u_username = ''alice'', u_password = ''p1''\<rparr>], Users_seq := 1\<rparr>"

text \<open>
  Two users.  User 1 has spent 300 and 200 in January 2025 and 50 in December 2024, has a
  budget of 500 for January 2025, and has a monthly payment that was due on 14 January 2024.
\<close>

definition sample_store :: database where
  "sample_store =
     \<lparr>Users = [\<lparr>u_id = 1, u_username = ''alice'', u_password = ''p1''\<rparr>,
               \<lparr>u_id = 2, u_username = ''bob'', u_password = ''p2''\<rparr>],
      Users_seq = 2,
      Categories = [], Categories_seq = 0,
      Expenses =
        [\<lparr>e_id = 1, e_date = ''2025-01-03'', e_category = ''Food'', e_amount = 300, e_user_id = 1\<rparr>,
         \<lparr>e_id = 2, e_date = ''2025-01-10'', e_category = ''Rent'', e_amount = 200, e_user_id = 1\<rparr>,
         \<lparr>e_id = 3, e_date = ''2024-12-31'', e_category = ''Food'', e_amount = 50, e_user_id = 1\<rparr>,
         \<lparr>e_id = 4, e_date = ''2025-01-05'', e_category = ''Food'', e_amount = 999, e_user_id = 2\<rparr>],
      Expenses_seq = 4,
      RecurringPayments =
        [\<lparr>p_id = 1, p_name = ''Rent'', p_amount = 1000, p_due_date = ''2024-01-14'',
          p_frequency = ''Monthly'', p_user_id = 1\<rparr>],
      RecurringPayments_seq = 1,
      Budget = [\<lparr>b_id = 1, b_month = ''2025-01'', b_amount = 500, b_user_id = 1\<rparr>],
      Budget_seq = 1\<rparr>"

text \<open>
  The same store after user 1 spends another 0.5 in January 2025.  (A half is a binary64
  number; a hundredth is not.)
\<close>

definition sample_store_over :: database where
  "sample_store_over =
     sample_store\<lparr>Expenses := Expenses sample_store @
       [\<lparr>e_id = 5, e_date = ''2025-01-12'', e_category = ''Food'', e_amount = 1 / 2,
         e_user_id = 1\<rparr>], Expenses_seq := 5\<rparr>"

text \<open>
  One user with two expenses on the same day, ten quadrillion (a binary64 number) and one,
  and a budget of ten quadrillion for that month.
\<close>

definition rounding_store :: database where
  "rounding_store =
     store_one_user\<lparr>Expenses :=
       [\<lparr>e_id = 1, e_date = ''2025-01-03'', e_category = ''Bonds'',
         e_amount = 10000000000000000, e_user_id = 1\<rparr>,
        \<lparr>e_id = 2, e_date = ''2025-01-03'', e_category = ''Food'', e_amount = 1, e_user_id = 1\<rparr>],
       Expenses_seq := 2,
       Budget := [\<lparr>b_id = 1, b_month = ''2025-01'', b_amount = 10000000000000000,
                   b_user_id = 1\<rparr>],
       Budget_seq := 1\<rparr>"

text \<open>
  The binary64 numbers nearest to 0.1, 0.2 and 0.3, and the binary64 number just above the
  last (0.30000000000000004).
\<close>

definition tenth :: real where "tenth = 3602879701896397 / 2 ^ 55"
definition two_tenths :: real where "two_tenths = 3602879701896397 / 2 ^ 54"
definition three_tenths :: real where "three_tenths = 5404319552844595 / 2 ^ 54"
definition three_tenths_up :: real where "three_tenths_up = 1351079888211149 / 2 ^ 52"

text \<open>One user who has spent 0.1 and 0.2 in January 2025 against a budget of 0.3.\<close>

definition tenths_store :: database where
  "tenths_store =
     store_one_user\<lparr>Expenses :=
       [\<lparr>e_id = 1, e_date = ''2025-01-03'', e_category = ''Food'', e_amount = tenth,
         e_user_id = 1\<rparr>,
        \<lparr>e_id = 2, e_date = ''2025-01-04'', e_category = ''Food'', e_amount = two_tenths,
         e_user_id = 1\<rparr>],
       Expenses_seq := 2,
       Budget := [\<lparr>b_id = 1, b_month = ''2025-01'', b_amount = three_tenths, b_user_id = 1\<rparr>],
       Budget_seq := 1\<rparr>"

section \<open>Properties of the rollover rule\<close>

lemma strftime_Ymd_examples:
  "strftime_Ymd \<lparr>year = 2024, month = 2, day = 28\<rparr> = ''2024-02-28''"
  "strftime_Ymd \<lparr>year = 999, month = 2, day = 15\<rparr> = ''999-02-15''"
  by (simp_all add: strftime_Ymd_def year_text_def pad4_def pad2_def digit_char_def)

lemma days_in_month_ge_28: "28 \<le> days_in_month y m"
  by (simp add: days_in_month_def)

lemma days_in_month_le_31: "days_in_month y m \<le> 31"
  by (simp add: days_in_month_def)

text \<open>
  The model of \<^verbatim>\<open>d + timedelta(weeks=1)\<close> agrees with the library's definition through
  ordinals: where it returns a date, that date is valid and its ordinal is seven more.
\<close>

lemma div_step:
  fixes y k :: int
  assumes "0 < k"
  shows "y div k = (y - 1) div k + (if y mod k = 0 then 1 else 0)"
proof (cases "y mod k = 0")
  case True
  then obtain q where q: "y = k * q" by (auto simp: mod_eq_0_iff_dvd)
  have "y - 1 = k * (q - 1) + (k - 1)" by (simp add: q algebra_simps)
  then have "(y - 1) div k = q - 1"
    using assms by (intro int_div_pos_eq [where r = "k - 1"]) simp_all
  with True q assms show ?thesis by simp
next
  case False
  define r where "r = y mod k"
  define q where "q = y div k"
  have y: "y = k * q + r" by (simp add: r_def q_def)
  have "0 \<le> r" "r < k" using assms by (simp_all add: r_def)
  with False have r: "0 < r" "r < k" by (simp_all add: r_def)
  have "y - 1 = k * q + (r - 1)" by (simp add: y)
  then have "(y - 1) div k = q"
    using r by (intro int_div_pos_eq [where r = "r - 1"]) simp_all
  with False show ?thesis by (simp add: q_def)
qed
lemma leap_day_count:
  fixes y :: int
  assumes a: "y mod 400 = 0 \<Longrightarrow> y mod 100 = 0" and b: "y mod 100 = 0 \<Longrightarrow> y mod 4 = 0"
  shows "y * 365 + (p4 + (if y mod 4 = 0 then 1 else 0)) - (p100 + (if y mod 100 = 0 then 1 else 0))
      + (p400 + (if y mod 400 = 0 then 1 else 0))
    = (y - 1) * 365 + p4 - p100 + p400 + (if (y mod 4 = 0 \<and> (y mod 100 \<noteq> 0 \<or> y mod 400 = 0)) then 366 else 365)"
proof -
  have lin: "y * 365 + (p4 + c4) - (p100 + c100) + (p400 + c400)
      = (y - 1) * 365 + p4 - p100 + p400 + (365 + c4 - c100 + c400)" for c4 c100 c400 :: int
    by (simp add: algebra_simps)
  have "(if y mod 4 = 0 then 1 else 0) - (if y mod 100 = 0 then 1 else 0)
          + (if y mod 400 = 0 then 1 else (0::int))
      = (if (y mod 4 = 0 \<and> (y mod 100 \<noteq> 0 \<or> y mod 400 = 0)) then 1 else 0)"
  proof (cases "y mod 400 = 0")
    case True
    from a [OF True] have h100: "y mod 100 = 0" .
    from b [OF h100] have h4: "y mod 4 = 0" .
    from True h100 h4 show ?thesis by (simp only: if_True if_False simp_thms; simp)
  next
    case n400: False
    show ?thesis
    proof (cases "y mod 100 = 0")
      case True
      with b have "y mod 4 = 0" by blast
      with True n400 show ?thesis by (simp only: if_True if_False simp_thms; simp)
    next
      case n100: False
      show ?thesis
      proof (cases "y mod 4 = 0")
        case True
        with n100 n400 show ?thesis by (simp only: if_True if_False simp_thms; simp)
      next
        case False
        with n100 n400 show ?thesis by (simp only: if_True if_False simp_thms; simp)
      qed
    qed
  qed
  then have "365 + (if y mod 4 = 0 then 1 else 0) - (if y mod 100 = 0 then 1 else 0)
          + (if y mod 400 = 0 then 1 else (0::int))
      = (if (y mod 4 = 0 \<and> (y mod 100 \<noteq> 0 \<or> y mod 400 = 0)) then 366 else 365)"
    by (simp split: if_splits)
  with lin show ?thesis by (simp only:)
qed
lemma days_before_year_Suc:
  "days_before_year (y + 1) = days_before_year y + (if is_leap y then 366 else 365)"
proof -
  define p4 where "p4 = (y - 1) div 4"
  define p100 where "p100 = (y - 1) div 100"
  define p400 where "p400 = (y - 1) div 400"
  have e4: "y div 4 = p4 + (if y mod 4 = 0 then 1 else 0)"
    unfolding p4_def by (rule div_step) simp
  have e100: "y div 100 = p100 + (if y mod 100 = 0 then 1 else 0)"
    unfolding p100_def by (rule div_step) simp
  have e400: "y div 400 = p400 + (if y mod 400 = 0 then 1 else 0)"
    unfolding p400_def by (rule div_step) simp
  have a: "y mod 100 = 0" if "y mod 400 = 0"
    using that mod_mod_cancel [of 100 400 y] by simp
  have b: "y mod 4 = 0" if "y mod 100 = 0"
    using that mod_mod_cancel [of 4 100 y] by simp
  have next_year: "days_before_year (y + 1) = y * 365 + y div 4 - y div 100 + y div 400"
    by (simp add: days_before_year_def)
  have this_year: "days_before_year y = (y - 1) * 365 + p4 - p100 + p400"
    by (simp add: days_before_year_def p4_def p100_def p400_def)
  show ?thesis
    unfolding next_year this_year e4 e100 e400 is_leap_def
    by (rule leap_day_count) (rule a, assumption, rule b, assumption)
qed

lemma days_before_month_Suc:
  assumes "1 \<le> m" "m < 12"
  shows "days_before_month y (m + 1) = days_before_month y m + days_in_month y m"
proof -
  from assms have "m = 1 \<or> m = 2 \<or> m = 3 \<or> m = 4 \<or> m = 5 \<or> m = 6 \<or> m = 7 \<or> m = 8 \<or>
    m = 9 \<or> m = 10 \<or> m = 11" by arith
  then show ?thesis
    by (elim disjE) (simp_all add: days_before_month_def DAYS_BEFORE_MONTH_def days_in_month_def)
qed

lemma days_before_month_12: "days_before_month y 12 + 31 = (if is_leap y then 366 else 365)"
  by (simp add: days_before_month_def DAYS_BEFORE_MONTH_def)

lemma days_before_month_1: "days_before_month y 1 = 0"
  by (simp add: days_before_month_def DAYS_BEFORE_MONTH_def)
lemma date_add_week_ordinal:
  assumes v: "valid_date d" and a: "date_add_week d = Inr d'"
  shows "valid_date d' \<and> toordinal d' = toordinal d + 7"
proof -
  let ?dim = "days_in_month (year d) (month d)"
  from v have b: "1 \<le> year d" "year d \<le> 9999" "1 \<le> month d" "month d \<le> 12" "1 \<le> day d" "day d \<le> ?dim"
    by (simp_all add: valid_date_def MINYEAR_def MAXYEAR_def)
  have ge: "28 \<le> days_in_month y m" for y m by (rule days_in_month_ge_28)
  have le: "days_in_month y m \<le> 31" for y m by (rule days_in_month_le_31)
  show ?thesis
  proof (cases "day d + 7 \<le> ?dim")
    case True
    with a have "d' = d\<lparr>day := day d + 7\<rparr>" by (simp add: date_add_week_def Let_def)
    with True b show ?thesis by (simp add: valid_date_def MINYEAR_def MAXYEAR_def toordinal_def)
  next
    case False
    show ?thesis
    proof (cases "month d < 12")
      case True
      with False a have d': "d' = \<lparr>year = year d, month = month d + 1, day = day d + 7 - ?dim\<rparr>"
        by (simp add: date_add_week_def Let_def)
      from False b ge [of "year d" "month d + 1"] le [of "year d" "month d"] True
      have "valid_date d'" unfolding d' by (simp add: valid_date_def MINYEAR_def MAXYEAR_def)
      moreover have "toordinal d' = toordinal d + 7"
        unfolding d' using days_before_month_Suc [OF b(3) True, of "year d"] by (simp add: toordinal_def)
      ultimately show ?thesis by simp
    next
      case m12: False
      with b have m: "month d = 12" by simp
      from a False m12 have y: "year d < 9999"
        by (simp add: date_add_week_def Let_def MAXYEAR_def split: if_splits)
      with a False m12 have d': "d' = \<lparr>year = year d + 1, month = 1, day = day d + 7 - ?dim\<rparr>"
        by (simp add: date_add_week_def Let_def MAXYEAR_def)
      have dim: "?dim = 31" using m by (simp add: days_in_month_def)
      from False b y dim have "valid_date d'" unfolding d'
        by (simp add: valid_date_def MINYEAR_def MAXYEAR_def days_in_month_def)
      moreover have "toordinal d' = toordinal d + 7"
        unfolding d' using days_before_month_12 [of "year d"] m dim
        by (simp add: toordinal_def days_before_year_Suc days_before_month_1)
      ultimately show ?thesis by simp
    qed
  qed
qed


lemma weekly_rollover_example:
  "calculate_next_due_date \<lparr>year = 2024, month = 1, day = 1\<rparr> ''Weekly''
     = Inr \<lparr>year = 2024, month = 1, day = 8\<rparr>"
  by (simp add: calculate_next_due_date_def date_add_week_def days_in_month_def)

text \<open>
  Claim C9.  For every date and every frequency string other than "Weekly", "Monthly" and
  "Yearly", the rollover rule gives what it gives for "Monthly": the same date, or the same
  exception.
\<close>

theorem unrecognized_frequency_is_monthly:
  "frequency \<noteq> ''Weekly'' \<Longrightarrow> frequency \<noteq> ''Monthly'' \<Longrightarrow> frequency \<noteq> ''Yearly'' \<Longrightarrow>
   calculate_next_due_date d frequency = calculate_next_due_date d ''Monthly''"
  by (simp add: calculate_next_due_date_def)

theorem unrecognized_frequency_is_monthly_witness:
  "''Daily'' \<noteq> ''Weekly'' \<and> ''Daily'' \<noteq> ''Monthly'' \<and> ''Daily'' \<noteq> ''Yearly'' \<and>
   calculate_next_due_date \<lparr>year = 2024, month = 1, day = 31\<rparr> ''Daily''
     = calculate_next_due_date \<lparr>year = 2024, month = 1, day = 31\<rparr> ''Monthly''"
  using unrecognized_frequency_is_monthly
          [of "''Daily''" "\<lparr>year = 2024, month = 1, day = 31\<rparr>"]
  by simp

text \<open>
  Claim C1, amended.  For every calendar date other than those of December 9999, the rule
  for "Monthly" returns the date in the next calendar month whose day is the smaller of the
  given day and 28; the year goes up by one exactly when the given month is December.
\<close>

theorem monthly_rollover:
  "valid_date d \<Longrightarrow> \<not> (year d = 9999 \<and> month d = 12) \<Longrightarrow>
   calculate_next_due_date d ''Monthly'' =
     Inr \<lparr>year = (if month d = 12 then year d + 1 else year d),
          month = (if month d = 12 then 1 else month d + 1),
          day = min (day d) 28\<rparr>"
proof -
  assume v: "valid_date d" and n: "\<not> (year d = 9999 \<and> month d = 12)"
  have d28: "28 \<le> days_in_month y m" for y m by (rule days_in_month_ge_28)
  show ?thesis
  proof (cases "month d = 12")
    case True
    with v n have "year d + 1 \<le> 9999" "1 \<le> year d"
      by (auto simp: valid_date_def MINYEAR_def MAXYEAR_def)
    with True v show ?thesis
      using d28 [of "year d + 1" 1]
      by (simp add: calculate_next_due_date_def mk_date_def valid_date_def MINYEAR_def
            MAXYEAR_def Let_def min_def)
  next
    case False
    with v have m: "1 \<le> month d" "month d < 12" by (auto simp: valid_date_def)
    then have "month d div 12 = 0" "month d mod 12 = month d" by auto
    with False v m show ?thesis
      using d28 [of "year d" "month d + 1"]
      by (simp add: calculate_next_due_date_def mk_date_def valid_date_def MINYEAR_def
            MAXYEAR_def Let_def min_def)
  qed
qed

text \<open>The two dates of the specification, and a date in December.\<close>

theorem monthly_rollover_witness:
  "valid_date \<lparr>year = 2024, month = 1, day = 31\<rparr> \<and>
   calculate_next_due_date \<lparr>year = 2024, month = 1, day = 31\<rparr> ''Monthly''
     = Inr \<lparr>year = 2024, month = 2, day = 28\<rparr> \<and>
   valid_date \<lparr>year = 2024, month = 1, day = 30\<rparr> \<and>
   calculate_next_due_date \<lparr>year = 2024, month = 1, day = 30\<rparr> ''Monthly''
     = Inr \<lparr>year = 2024, month = 2, day = 28\<rparr> \<and>
   valid_date \<lparr>year = 2023, month = 12, day = 15\<rparr> \<and>
   calculate_next_due_date \<lparr>year = 2023, month = 12, day = 15\<rparr> ''Monthly''
     = Inr \<lparr>year = 2024, month = 1, day = 15\<rparr>"
  using monthly_rollover [of "\<lparr>year = 2024, month = 1, day = 31\<rparr>"]
        monthly_rollover [of "\<lparr>year = 2024, month = 1, day = 30\<rparr>"]
        monthly_rollover [of "\<lparr>year = 2023, month = 12, day = 15\<rparr>"]
  by (simp add: valid_date_def MINYEAR_def MAXYEAR_def days_in_month_def)

text \<open>
  The claim as stated fails on 15 December 9999: the year after 9999 is no year of a
  \<^verbatim>\<open>datetime\<close>, and the rule raises.
\<close>

theorem monthly_rollover_counterexample:
  "valid_date \<lparr>year = 9999, month = 12, day = 15\<rparr> \<and>
   calculate_next_due_date \<lparr>year = 9999, month = 12, day = 15\<rparr> ''Monthly''
     = Inl (ValueError ''year is out of range'')"
  by (simp add: valid_date_def MINYEAR_def MAXYEAR_def days_in_month_def
        calculate_next_due_date_def mk_date_def)

text \<open>
  Claim C3, amended.  For every calendar date before year 9999 that is not a 29 February,
  the rule for "Yearly" returns the date with the same month and day in the next year.
  Nothing is stated for 29 February.
\<close>

theorem yearly_rollover:
  "valid_date d \<Longrightarrow> year d < 9999 \<Longrightarrow> \<not> (month d = 2 \<and> day d = 29) \<Longrightarrow>
   calculate_next_due_date d ''Yearly'' =
     Inr \<lparr>year = year d + 1, month = month d, day = day d\<rparr>"
  by (auto simp: calculate_next_due_date_def mk_date_def valid_date_def MINYEAR_def MAXYEAR_def
        days_in_month_def split: if_splits)

theorem yearly_rollover_witness:
  "valid_date \<lparr>year = 2024, month = 2, day = 28\<rparr> \<and> (2024 :: int) < 9999 \<and>
   calculate_next_due_date \<lparr>year = 2024, month = 2, day = 28\<rparr> ''Yearly''
     = Inr \<lparr>year = 2025, month = 2, day = 28\<rparr>"
  using yearly_rollover [of "\<lparr>year = 2024, month = 2, day = 28\<rparr>"]
  by (simp add: valid_date_def MINYEAR_def MAXYEAR_def days_in_month_def)

text \<open>
  The claim as stated fails on 15 June 9999: the year after 9999 is no year of a
  \<^verbatim>\<open>datetime\<close>, and the rule raises, as it does for "Monthly" in December 9999.
\<close>

theorem yearly_rollover_counterexample:
  "valid_date \<lparr>year = 9999, month = 6, day = 15\<rparr> \<and>
   calculate_next_due_date \<lparr>year = 9999, month = 6, day = 15\<rparr> ''Yearly''
     = Inl (ValueError ''year is out of range'')"
  by (simp add: valid_date_def MINYEAR_def MAXYEAR_def days_in_month_def
        calculate_next_due_date_def mk_date_def)

text \<open>
  On 29 February the "Yearly" branch raises as well: the year after a leap year has no
  29 February, and the branch builds the date without the clamp of the day that the
  "Monthly" branch applies for months with fewer days.  The property above leaves this case
  out: it does not make the exception part of the rule.
\<close>

lemma yearly_rollover_leap_day_raises:
  "valid_date \<lparr>year = 2024, month = 2, day = 29\<rparr> \<and>
   calculate_next_due_date \<lparr>year = 2024, month = 2, day = 29\<rparr> ''Yearly''
     = Inl (ValueError ''day is out of range for month'')"
  by (simp add: valid_date_def MINYEAR_def MAXYEAR_def days_in_month_def is_leap_def
        calculate_next_due_date_def mk_date_def)

section \<open>Properties of the arithmetic on REAL values\<close>

text \<open>
  A number with at most 53 significant bits, and no bit below \<open>2 powr - 1074\<close>, is a
  binary64 number: rounding leaves it as it is.
\<close>

lemma round_half_even_of_int: "round_half_even (of_int m) = m"
  by (simp add: round_half_even_def)

lemma round_binary64_bracket:
  assumes lo: "2 powr of_int e \<le> \<bar>x\<bar>" and hi: "\<bar>x\<bar> < 2 powr (of_int e + 1)"
    and norm: "- 1022 \<le> e"
  shows "round_binary64 x
           = 2 powr (of_int e - 52) * of_int (round_half_even (x / 2 powr (of_int e - 52)))"
proof -
  have pos: "0 < \<bar>x\<bar>" using lo by (smt (verit) powr_gt_zero)
  then have nz: "x \<noteq> 0" by simp
  have "\<lfloor>log 2 \<bar>x\<bar>\<rfloor> = e"
    using pos lo hi by (simp add: floor_log_eq_powr_iff)
  with norm have "binary64_quantum x = 2 powr (of_int e - 52)"
    by (simp add: binary64_quantum_def max_def)
  with nz show ?thesis by (simp add: round_binary64_def)
qed

lemma round_binary64_exact:
  assumes n: "\<bar>n\<bar> < 2 ^ 53" and j: "- 1074 \<le> j"
  shows "round_binary64 (of_int n * 2 powr of_int j) = of_int n * 2 powr of_int j"
proof (cases "n = 0")
  case True
  then show ?thesis by (simp add: round_binary64_def)
next
  case False
  define x :: real where "x = of_int n * 2 powr of_int j"
  have absx: "\<bar>x\<bar> = of_int \<bar>n\<bar> * 2 powr of_int j" by (simp add: x_def abs_mult)
  have xnz: "x \<noteq> 0" using False by (simp add: x_def)
  then have xpos: "0 < \<bar>x\<bar>" by simp
  define e where "e = \<lfloor>log 2 \<bar>x\<bar>\<rfloor>"
  have elo: "2 powr of_int e \<le> \<bar>x\<bar>"
    using xpos floor_log_eq_powr_iff [of "\<bar>x\<bar>" 2 e] by (simp add: e_def)
  have "(of_int \<bar>n\<bar> :: real) < 2 ^ 53"
    using n by (metis of_int_less_numeral_power_cancel_iff)
  then have "\<bar>x\<bar> < 2 ^ 53 * 2 powr of_int j" unfolding absx by simp
  also have "\<dots> = 2 powr (53 + of_int j)" by (simp add: powr_add powr_numeral)
  finally have "\<bar>x\<bar> < 2 powr (53 + of_int j)" .
  with elo have "2 powr of_int e < (2::real) powr (53 + of_int j)" by linarith
  then have "of_int e < (53 + of_int j :: real)" by simp
  then have e_le: "e \<le> 52 + j" by linarith
  define E where "E = max e (- 1022)"
  have E_le: "E - 52 \<le> j" using e_le j by (simp add: E_def)
  define k where "k = nat (j - (E - 52))"
  have k: "of_int j = of_int (E - 52) + real k" using E_le by (simp add: k_def)
  have q: "binary64_quantum x = 2 powr of_int (E - 52)"
    by (simp add: binary64_quantum_def E_def e_def)
  have "(2::real) powr of_int j = 2 powr (of_int (E - 52) + real k)" by (simp only: k)
  also have "\<dots> = 2 powr of_int (E - 52) * 2 ^ k" by (simp only: powr_add powr_realpow zero_less_numeral)
  finally have split: "(2::real) powr of_int j = 2 powr of_int (E - 52) * 2 ^ k" .
  have xq: "x = binary64_quantum x * of_int (n * 2 ^ k)"
    unfolding q by (simp add: x_def split)
  have qnz: "binary64_quantum x \<noteq> 0" unfolding q by simp
  have quot: "x / binary64_quantum x = of_int (n * 2 ^ k)"
    using qnz xq by (metis nonzero_mult_div_cancel_left)
  have "round_binary64 x = binary64_quantum x * of_int (round_half_even (of_int (n * 2 ^ k)))"
    using xnz by (simp only: round_binary64_def quot if_False)
  also have "\<dots> = x" by (simp only: round_half_even_of_int xq [symmetric])
  finally show ?thesis by (simp only: x_def)
qed

lemma round_binary64_of_int:
  assumes "\<bar>n\<bar> < 2 ^ 53"
  shows "round_binary64 (of_int n) = of_int n"
proof -
  have "round_binary64 (of_int n * 2 powr of_int 0) = of_int n * 2 powr of_int 0"
    by (rule round_binary64_exact [OF assms]) simp
  then show ?thesis by simp
qed

lemma round_binary64_half:
  assumes "\<bar>n\<bar> < 2 ^ 53"
  shows "round_binary64 (of_int n / 2) = of_int n / 2"
proof -
  have "round_binary64 (of_int n * 2 powr of_int (- 1)) = of_int n * 2 powr of_int (- 1)"
    by (rule round_binary64_exact [OF assms]) simp
  moreover have "(2::real) powr of_int (- 1) = 1 / 2" by (simp add: powr_minus_divide)
  ultimately show ?thesis by simp
qed

lemma round_binary64_double:
  assumes "\<bar>n\<bar> < 2 ^ 53"
  shows "round_binary64 (of_int n * 2) = of_int n * 2"
proof -
  have "round_binary64 (of_int n * 2 powr of_int 1) = of_int n * 2 powr of_int 1"
    by (rule round_binary64_exact [OF assms]) simp
  then show ?thesis by simp
qed

lemma round_binary64_0: "round_binary64 0 = 0"
  by (simp add: round_binary64_def)

lemma round_binary64_1: "round_binary64 1 = 1"
  using round_binary64_of_int [of 1] by simp

lemma round_binary64_numeral:
  "(numeral k :: int) < 2 ^ 53 \<Longrightarrow> round_binary64 (numeral k) = numeral k"
  using round_binary64_of_int [of "numeral k"] by simp

lemma round_binary64_neg_numeral:
  "(numeral k :: int) < 2 ^ 53 \<Longrightarrow> round_binary64 (- numeral k) = - numeral k"
  using round_binary64_of_int [of "- numeral k"] by simp

lemma round_binary64_numeral_half:
  "(numeral k :: int) < 2 ^ 53 \<Longrightarrow> round_binary64 (numeral k / 2) = numeral k / 2"
  using round_binary64_half [of "numeral k"] by simp

lemma round_binary64_one_half: "round_binary64 (1 / 2) = 1 / 2"
  using round_binary64_half [of 1] by simp

lemma round_binary64_neg_one_half: "round_binary64 (- (1 / 2)) = - (1 / 2)"
  using round_binary64_half [of "- 1"] by simp

lemma round_binary64_ten_quadrillion: "round_binary64 10000000000000000 = 10000000000000000"
  using round_binary64_double [of 5000000000000000] by simp

lemma round_binary64_tie: "round_binary64 10000000000000001 = 10000000000000000"
proof -
  have "round_binary64 10000000000000001
          = 2 powr (of_int 53 - 52) * of_int (round_half_even (10000000000000001 / 2 powr (of_int 53 - 52)))"
    by (rule round_binary64_bracket) (simp_all add: powr_numeral)
  also have "\<dots> = 2 * of_int (round_half_even (10000000000000001 / 2))" by simp
  also have "round_half_even (10000000000000001 / 2) = 5000000000000000"
    by (simp add: round_half_even_def Let_def)
  finally show ?thesis by simp
qed

lemmas binary64_eval = round_binary64_0 round_binary64_1 round_binary64_numeral
  round_binary64_neg_numeral round_binary64_numeral_half round_binary64_one_half
  round_binary64_neg_one_half

lemma round_binary64_dyadic:
  assumes "\<bar>n\<bar> < 2 ^ 53" "k \<le> 1074"
  shows "round_binary64 (of_int n / 2 ^ k) = of_int n / 2 ^ k"
proof -
  have "round_binary64 (of_int n * 2 powr of_int (- int k)) = of_int n * 2 powr of_int (- int k)"
    by (rule round_binary64_exact [OF assms(1)]) (use assms(2) in simp)
  moreover have "(2::real) powr of_int (- int k) = 1 / 2 ^ k"
    by (simp add: powr_minus_divide powr_realpow)
  ultimately show ?thesis by simp
qed

text \<open>Sums that need no rounding are exact; the sum of ten quadrillion and one is not.\<close>

lemma binary64_sum_300_200: "binary64_sum [300, 200] = Some 500"
  by (simp add: binary64_sum_def kahanBabuskaNeumaierStep_def Let_def binary64_eval)

lemma binary64_sum_300_200_half: "binary64_sum [300, 200, 1 / 2] = Some (1001 / 2)"
  by (simp add: binary64_sum_def kahanBabuskaNeumaierStep_def Let_def binary64_eval)

lemma binary64_sum_absorbs_one:
  "binary64_sum [10000000000000000, 1] = Some 10000000000000000"
  by (simp add: binary64_sum_def kahanBabuskaNeumaierStep_def Let_def binary64_eval
        round_binary64_ten_quadrillion round_binary64_tie)

text \<open>
  The sum of 0.1 and 0.2 lies midway between two binary64 numbers and is rounded up: it is
  0.30000000000000004, above the binary64 number 0.3.
\<close>

lemma round_tenth: "round_binary64 tenth = tenth"
  unfolding tenth_def using round_binary64_dyadic [of 3602879701896397 55] by simp

lemma round_two_tenths: "round_binary64 two_tenths = two_tenths"
  unfolding two_tenths_def using round_binary64_dyadic [of 3602879701896397 54] by simp

lemma round_tenth_plus_two_tenths: "round_binary64 (tenth + two_tenths) = three_tenths_up"
proof -
  have x: "tenth + two_tenths = 10808639105689191 / 2 ^ 55"
    by (simp add: tenth_def two_tenths_def)
  have q: "(2::real) powr (of_int (- 2) - 52) = 1 / 2 ^ 54"
    by (simp add: powr_minus_divide)
  have "round_binary64 (10808639105689191 / 2 ^ 55)
          = 2 powr (of_int (- 2) - 52)
              * of_int (round_half_even ((10808639105689191 / 2 ^ 55) / 2 powr (of_int (- 2) - 52)))"
    by (rule round_binary64_bracket) (simp_all add: powr_minus_divide)
  then have br: "round_binary64 (10808639105689191 / 2 ^ 55)
          = 1 / 2 ^ 54 * of_int (round_half_even ((10808639105689191 / 2 ^ 55) / (1 / 2 ^ 54)))"
    unfolding q .
  have rh: "round_half_even ((10808639105689191 / 2 ^ 55) / (1 / 2 ^ 54)) = 5404319552844596"
    by (simp add: round_half_even_def Let_def)
  show ?thesis unfolding x br rh three_tenths_up_def by simp
qed

lemma round_tenth_plus_two_tenths_commuted: "round_binary64 (two_tenths + tenth) = three_tenths_up"
proof -
  have "two_tenths + tenth = tenth + two_tenths" by (rule add.commute)
  then show ?thesis by (simp only: round_tenth_plus_two_tenths)
qed

lemma round_tenths_difference: "round_binary64 (two_tenths - three_tenths_up) = two_tenths - three_tenths_up"
proof -
  have x: "two_tenths - three_tenths_up = of_int (- 1801439850948199) / 2 ^ 54"
    by (simp add: two_tenths_def three_tenths_up_def)
  show ?thesis unfolding x by (rule round_binary64_dyadic) simp_all
qed

lemma round_tenths_error: "round_binary64 (two_tenths - three_tenths_up + tenth) = two_tenths - three_tenths_up + tenth"
proof -
  have x: "two_tenths - three_tenths_up + tenth = of_int (- 1) / 2 ^ 55"
    by (simp add: two_tenths_def three_tenths_up_def tenth_def)
  show ?thesis unfolding x by (rule round_binary64_dyadic) simp_all
qed

lemma round_tenths_total: "round_binary64 (three_tenths_up + (two_tenths - three_tenths_up + tenth)) = three_tenths_up"
proof -
  have "three_tenths_up + (two_tenths - three_tenths_up + tenth) = tenth + two_tenths" by simp
  then show ?thesis by (simp only: round_tenth_plus_two_tenths)
qed

lemma tenths_order: "\<bar>tenth\<bar> < \<bar>two_tenths\<bar>" "three_tenths < three_tenths_up" "three_tenths_up \<noteq> 0"
  by (simp_all add: tenth_def two_tenths_def three_tenths_def three_tenths_up_def)

lemma binary64_sum_tenths: "binary64_sum [tenth, two_tenths] = Some three_tenths_up"
proof -
  have step1: "kahanBabuskaNeumaierStep (0, 0) tenth = (tenth, 0)"
    by (simp add: kahanBabuskaNeumaierStep_def Let_def round_tenth round_binary64_0)
  have step2: "kahanBabuskaNeumaierStep (tenth, 0) two_tenths
                 = (three_tenths_up, two_tenths - three_tenths_up + tenth)"
    using tenths_order(1)
    by (simp add: kahanBabuskaNeumaierStep_def Let_def round_tenth_plus_two_tenths round_tenth_plus_two_tenths_commuted round_tenths_difference round_tenths_error)
  show ?thesis
    by (simp add: binary64_sum_def step1 step2 Let_def round_tenths_total round_tenth_plus_two_tenths round_tenth_plus_two_tenths_commuted)
qed

section \<open>Properties of the domain services\<close>

lemma distinct_map_eq:
  "distinct (map f xs) \<Longrightarrow> x \<in> set xs \<Longrightarrow> y \<in> set xs \<Longrightarrow> f x = f y \<Longrightarrow> x = y"
  by (auto simp: distinct_map inj_on_def)

lemma distinct_map_filter_le_1:
  "distinct (map f xs) \<Longrightarrow> length (filter (\<lambda>x. f x = k) xs) \<le> 1"
proof (induction xs)
  case Nil
  then show ?case by simp
next
  case (Cons a xs)
  show ?case
  proof (cases "f a = k")
    case True
    with Cons.prems have "\<forall>x\<in>set xs. f x \<noteq> k" by (auto simp: image_iff)
    then have "filter (\<lambda>x. f x = k) xs = []" by (simp add: filter_empty_conv)
    with True show ?thesis by simp
  next
    case False
    with Cons show ?thesis by simp
  qed
qed

lemma Category_add_nonempty:
  "name \<noteq> [] \<Longrightarrow> Category_add name db = (Inl (ValueError ''Category already exists.''), db)"
  by (simp add: Category_add_def insert_Categories_def)

text \<open>
  Claim C4.  On a store with one user and no category, adding the category "Food" is
  refused as a duplicate and stores nothing: the INSERT leaves \<^verbatim>\<open>user_id\<close> NULL, the
  NOT NULL constraint fails, and the failure is reported as "Category already exists.".
\<close>

theorem Category_add_reports_duplicate_on_fresh_store:
  "Categories store_one_user = [] \<and>
   Category_add ''Food'' store_one_user
     = (Inl (ValueError ''Category already exists.''), store_one_user)"
  by (simp add: Category_add_nonempty) (simp add: store_one_user_def init_db_def)

text \<open>
  Claim C8, amended.  For every start date and user, \<^verbatim>\<open>get_spending_since\<close> returns what
  the store's floating-point SUM gives for the amounts of exactly the user's expenses whose
  date is not before the start date (0 if that is NULL).  This is the exact sum of those
  amounts whenever the SUM is exact on them.  It is 0 when there is no such expense.
\<close>

theorem spending_since_is_store_sum:
  "(filter (\<lambda>r. start_date \<le> e_date r \<and> e_user_id r = user_id) (Expenses db) \<noteq> [] \<longrightarrow>
      Expense_get_spending_since sum_aggregate start_date user_id db =
        (case sum_aggregate (map e_amount
                (filter (\<lambda>r. start_date \<le> e_date r \<and> e_user_id r = user_id) (Expenses db))) of
           None \<Rightarrow> 0
         | Some s \<Rightarrow> s)) \<and>
   (sum_aggregate (map e_amount
        (filter (\<lambda>r. start_date \<le> e_date r \<and> e_user_id r = user_id) (Expenses db)))
      = Some (sum_list (map e_amount
          (filter (\<lambda>r. start_date \<le> e_date r \<and> e_user_id r = user_id) (Expenses db)))) \<longrightarrow>
      Expense_get_spending_since sum_aggregate start_date user_id db =
        sum_list (map e_amount
          (filter (\<lambda>r. start_date \<le> e_date r \<and> e_user_id r = user_id) (Expenses db)))) \<and>
   (filter (\<lambda>r. start_date \<le> e_date r \<and> e_user_id r = user_id) (Expenses db) = [] \<longrightarrow>
      Expense_get_spending_since sum_aggregate start_date user_id db = 0)"
proof -
  let ?rows = "filter (\<lambda>r. start_date \<le> e_date r \<and> e_user_id r = user_id) (Expenses db)"
  have none: "Expense_get_spending_since sum_aggregate start_date user_id db = 0"
    if "?rows = []"
    using that by (simp add: Expense_get_spending_since_def sql_SUM_def)
  have some: "Expense_get_spending_since sum_aggregate start_date user_id db =
        (case sum_aggregate (map e_amount ?rows) of None \<Rightarrow> 0 | Some s \<Rightarrow> s)"
    if "?rows \<noteq> []"
    using that by (simp add: Expense_get_spending_since_def sql_SUM_def split: option.splits)
  have exact: "Expense_get_spending_since sum_aggregate start_date user_id db =
        sum_list (map e_amount ?rows)"
    if "sum_aggregate (map e_amount ?rows) = Some (sum_list (map e_amount ?rows))"
  proof (cases "?rows = []")
    case True
    with none show ?thesis by simp
  next
    case False
    from some [OF False] that show ?thesis by simp
  qed
  from none some exact show ?thesis by blast
qed

text \<open>
  In the sample store, summed as SQLite sums: user 1 has no expense from February 2025 on,
  and expenses of 300 and 200 from 1 January 2025 on, which add up without rounding.
\<close>

theorem spending_since_is_store_sum_witness:
  "filter (\<lambda>r. ''2025-02-01'' \<le> e_date r \<and> e_user_id r = 1) (Expenses sample_store) = [] \<and>
   Expense_get_spending_since binary64_sum ''2025-02-01'' 1 sample_store = 0 \<and>
   map e_amount (filter (\<lambda>r. ''2025-01-01'' \<le> e_date r \<and> e_user_id r = 1)
      (Expenses sample_store)) = [300, 200] \<and>
   binary64_sum [300, 200] = Some (sum_list [300, 200]) \<and>
   Expense_get_spending_since binary64_sum ''2025-01-01'' 1 sample_store = 300 + 200"
proof -
  have feb: "filter (\<lambda>r. ''2025-02-01'' \<le> e_date r \<and> e_user_id r = 1) (Expenses sample_store)
               = []"
    by (simp add: sample_store_def)
  have jan: "map e_amount (filter (\<lambda>r. ''2025-01-01'' \<le> e_date r \<and> e_user_id r = 1)
               (Expenses sample_store)) = [300, 200]"
    by (simp add: sample_store_def)
  have ex: "binary64_sum [300, 200] = Some (sum_list [300, 200])"
    by (simp add: binary64_sum_300_200)
  from spending_since_is_store_sum [of "''2025-02-01''" 1 sample_store binary64_sum] feb
  have z: "Expense_get_spending_since binary64_sum ''2025-02-01'' 1 sample_store = 0"
    by blast
  from spending_since_is_store_sum [of "''2025-01-01''" 1 sample_store binary64_sum] ex
  have t: "Expense_get_spending_since binary64_sum ''2025-01-01'' 1 sample_store = 300 + 200"
    unfolding jan by simp
  from feb z jan ex t show ?thesis by blast
qed

text \<open>
  The claim as stated fails where the sum rounds.  With expenses of ten quadrillion and of
  one, the exact sum is 10000000000000001, and \<^verbatim>\<open>get_spending_since\<close> returns
  10000000000000000: the next binary64 number above ten quadrillion is two more.
\<close>

theorem spending_since_is_store_sum_counterexample:
  "map e_user_id (Expenses rounding_store) = [1, 1] \<and>
   map e_date (Expenses rounding_store) = [''2025-01-03'', ''2025-01-03''] \<and>
   ''2025-01-01'' \<le> ''2025-01-03'' \<and>
   sum_list (map e_amount (Expenses rounding_store)) = 10000000000000001 \<and>
   Expense_get_spending_since binary64_sum ''2025-01-01'' 1 rounding_store
     = 10000000000000000"
proof -
  have all: "map e_user_id (Expenses rounding_store) = [1, 1]"
       "map e_date (Expenses rounding_store) = [''2025-01-03'', ''2025-01-03'']"
       "sum_list (map e_amount (Expenses rounding_store)) = 10000000000000001"
    by (simp_all add: rounding_store_def)
  have rows: "map e_amount (filter (\<lambda>r. ''2025-01-01'' \<le> e_date r \<and> e_user_id r = 1)
      (Expenses rounding_store)) = [10000000000000000, 1]"
    by (simp add: rounding_store_def)
  have "Expense_get_spending_since binary64_sum ''2025-01-01'' 1 rounding_store
          = 10000000000000000"
    unfolding Expense_get_spending_since_def rows sql_SUM_def
    by (simp add: binary64_sum_absorbs_one)
  with all show ?thesis by simp
qed

text \<open>
  Claim C5.  Let the expense with id \<open>e\<close> belong to user \<open>A\<close>, and let \<open>B\<close> be another
  user.  Then no row of \<open>B\<close>'s list has id \<open>e\<close>; \<^verbatim>\<open>update\<close> and \<^verbatim>\<open>delete\<close> of \<open>e\<close> by
  \<open>B\<close> raise "not found or does not belong to the user" and leave the store as it was; and
  \<^verbatim>\<open>update\<close> and \<^verbatim>\<open>delete\<close> succeed exactly when a row with that id and that user
  exists.  Row ids are the primary key of the table, hence distinct.
\<close>

theorem expense_ownership_isolation:
  assumes pk: "distinct (map e_id (Expenses db))"
    and r: "r \<in> set (Expenses db)" "e_id r = e" "e_user_id r = A"
    and ne: "A \<noteq> B"
  shows "e \<notin> fst ` set (Expense_get_all B db) \<and>
     Expense_update e new_date new_category new_amount B db
       = (Inl (ValueError ''Expense not found or does not belong to the user.''), db) \<and>
     Expense_delete e B db
       = (Inl (ValueError ''Expense not found or does not belong to the user.''), db) \<and>
     ((\<exists>db'. Expense_update e2 new_date new_category new_amount u db = (Inr (), db'))
        = (\<exists>x \<in> set (Expenses db). e_id x = e2 \<and> e_user_id x = u)) \<and>
     ((\<exists>db'. Expense_delete e2 u db = (Inr (), db'))
        = (\<exists>x \<in> set (Expenses db). e_id x = e2 \<and> e_user_id x = u))"
proof -
  have none: "\<forall>x \<in> set (Expenses db). \<not> (e_id x = e \<and> e_user_id x = B)"
  proof
    fix x assume x: "x \<in> set (Expenses db)"
    show "\<not> (e_id x = e \<and> e_user_id x = B)"
    proof
      assume xe: "e_id x = e \<and> e_user_id x = B"
      with r x have "x = r" using distinct_map_eq [OF pk x r(1)] by simp
      with xe r ne show False by simp
    qed
  qed
  then have empty: "filter (\<lambda>x. e_id x = e \<and> e_user_id x = B) (Expenses db) = []"
    by (simp add: filter_empty_conv)
  have 1: "e \<notin> fst ` set (Expense_get_all B db)"
    using none by (auto simp: Expense_get_all_def)
  have 2: "Expense_update e new_date new_category new_amount B db
       = (Inl (ValueError ''Expense not found or does not belong to the user.''), db)"
    using empty by (simp add: Expense_update_def)
  have 3: "Expense_delete e B db
       = (Inl (ValueError ''Expense not found or does not belong to the user.''), db)"
    using empty by (simp add: Expense_delete_def)
  have 4: "(\<exists>db'. Expense_update e2 new_date new_category new_amount u db = (Inr (), db'))
        = (\<exists>x \<in> set (Expenses db). e_id x = e2 \<and> e_user_id x = u)"
    by (simp add: Expense_update_def filter_empty_conv)
  have 5: "(\<exists>db'. Expense_delete e2 u db = (Inr (), db'))
        = (\<exists>x \<in> set (Expenses db). e_id x = e2 \<and> e_user_id x = u)"
    by (simp add: Expense_delete_def filter_empty_conv)
  from 1 2 3 4 5 show ?thesis by blast
qed

text \<open>In the sample store expense 1 belongs to user 1; user 2 cannot see or change it.\<close>

theorem expense_ownership_isolation_witness:
  "distinct (map e_id (Expenses sample_store)) \<and>
   \<lparr>e_id = 1, e_date = ''2025-01-03'', e_category = ''Food'', e_amount = 300, e_user_id = 1\<rparr>
     \<in> set (Expenses sample_store) \<and> (1 :: int) \<noteq> 2 \<and>
   1 \<notin> fst ` set (Expense_get_all 2 sample_store) \<and>
   Expense_update 1 ''2025-01-04'' ''Fun'' 1 2 sample_store
     = (Inl (ValueError ''Expense not found or does not belong to the user.''), sample_store) \<and>
   Expense_delete 1 2 sample_store
     = (Inl (ValueError ''Expense not found or does not belong to the user.''), sample_store) \<and>
   (\<exists>db'. Expense_update 1 ''2025-01-04'' ''Fun'' 1 1 sample_store = (Inr (), db')) \<and>
   (\<exists>db'. Expense_delete 1 1 sample_store = (Inr (), db'))"
proof -
  let ?r = "\<lparr>e_id = 1, e_date = ''2025-01-03'', e_category = ''Food'', e_amount = 300,
              e_user_id = 1\<rparr>"
  have pk: "distinct (map e_id (Expenses sample_store))" by (simp add: sample_store_def)
  have r: "?r \<in> set (Expenses sample_store)" by (simp add: sample_store_def)
  have ne: "(1 :: int) \<noteq> 2" by simp
  have own: "\<exists>x \<in> set (Expenses sample_store). e_id x = 1 \<and> e_user_id x = 1"
    using r by (intro bexI [of _ ?r]) simp_all
  from expense_ownership_isolation
         [OF pk r _ _ ne, of 1 "''2025-01-04''" "''Fun''" 1 1 1] own pk r ne
  show ?thesis by simp
qed

lemma budget_update_rows:
  "filter (\<lambda>r. b_month r = m \<and> b_user_id r = u)
      (map (\<lambda>r. if b_month r = m \<and> b_user_id r = u then r\<lparr>b_amount := a\<rparr> else r) xs)
   = map (\<lambda>r. r\<lparr>b_amount := a\<rparr>) (filter (\<lambda>r. b_month r = m \<and> b_user_id r = u) xs)"
  by (induction xs) auto

lemma set_monthly_budget_existing:
  assumes "filter (\<lambda>r. b_month r = m \<and> b_user_id r = u) (Budget db) = [x]"
  shows "fst (Budget_set_monthly_budget m a u db) = Inr () \<and>
         filter (\<lambda>r. b_month r = m \<and> b_user_id r = u)
            (Budget (snd (Budget_set_monthly_budget m a u db))) = [x\<lparr>b_amount := a\<rparr>]"
  using assms by (simp add: Budget_set_monthly_budget_def budget_update_rows)

lemma set_monthly_budget_absent:
  assumes "filter (\<lambda>r. b_month r = m \<and> b_user_id r = u) (Budget db) = []" "user_exists u db"
  shows "fst (Budget_set_monthly_budget m a u db) = Inr () \<and>
         (\<exists>x. filter (\<lambda>r. b_month r = m \<and> b_user_id r = u)
                 (Budget (snd (Budget_set_monthly_budget m a u db))) = [x])"
  using assms by (simp add: Budget_set_monthly_budget_def insert_Budget_def Let_def)

text \<open>The key stays unique: in the empty store, and after every \<^verbatim>\<open>set_monthly_budget\<close>.\<close>

lemma budget_key_unique_init_db: "budget_key_unique init_db"
  by (simp add: budget_key_unique_def init_db_def)

lemma budget_key_unique_set_monthly_budget:
  assumes "budget_key_unique db"
  shows "budget_key_unique (snd (Budget_set_monthly_budget m a u db))"
proof (cases "filter (\<lambda>r. b_month r = m \<and> b_user_id r = u) (Budget db)")
  case Nil
  then have "\<forall>r \<in> set (Budget db). \<not> (b_month r = m \<and> b_user_id r = u)"
    by (simp add: filter_empty_conv)
  then have "(m, u) \<notin> (\<lambda>r. (b_month r, b_user_id r)) ` set (Budget db)" by auto
  with assms Nil show ?thesis
    by (simp add: Budget_set_monthly_budget_def insert_Budget_def Let_def budget_key_unique_def)
next
  case (Cons x xs)
  have keys: "map (\<lambda>r. (b_month r, b_user_id r))
          (map (\<lambda>r. if b_month r = m \<and> b_user_id r = u then r\<lparr>b_amount := a\<rparr> else r) ys)
        = map (\<lambda>r. (b_month r, b_user_id r)) ys" for ys
    by (induction ys) auto
  have rows: "Budget (snd (Budget_set_monthly_budget m a u db))
        = map (\<lambda>r. if b_month r = m \<and> b_user_id r = u then r\<lparr>b_amount := a\<rparr> else r)
            (Budget db)"
    using Cons by (simp add: Budget_set_monthly_budget_def)
  from assms show ?thesis
    unfolding budget_key_unique_def rows keys .
qed

text \<open>
  Claim C6.  For every month, every registered user and all amounts \<open>a1\<close> and \<open>a2\<close>:
  setting the budget to \<open>a1\<close> and then to \<open>a2\<close> succeeds both times, leaves exactly one
  Budget row for that month and user, and \<^verbatim>\<open>get_monthly_budget\<close> then returns \<open>a2\<close>.
\<close>

theorem budget_upsert_overwrites:
  assumes uniq: "budget_key_unique db" and usr: "user_exists u db"
  shows "fst (Budget_set_monthly_budget m a1 u db) = Inr () \<and>
     fst (Budget_set_monthly_budget m a2 u (snd (Budget_set_monthly_budget m a1 u db))) = Inr () \<and>
     length (filter (\<lambda>r. b_month r = m \<and> b_user_id r = u)
        (Budget (snd (Budget_set_monthly_budget m a2 u
                   (snd (Budget_set_monthly_budget m a1 u db)))))) = 1 \<and>
     Budget_get_monthly_budget m u
        (snd (Budget_set_monthly_budget m a2 u (snd (Budget_set_monthly_budget m a1 u db))))
       = Some a2"
proof -
  let ?key = "\<lambda>r. b_month r = m \<and> b_user_id r = u"
  let ?db1 = "snd (Budget_set_monthly_budget m a1 u db)"
  let ?db2 = "snd (Budget_set_monthly_budget m a2 u ?db1)"
  have le1: "length (filter ?key (Budget db)) \<le> 1"
    using uniq distinct_map_filter_le_1 [of "\<lambda>r. (b_month r, b_user_id r)" "Budget db" "(m, u)"]
    by (simp add: budget_key_unique_def)
  have first: "fst (Budget_set_monthly_budget m a1 u db) = Inr () \<and>
               (\<exists>x. filter ?key (Budget ?db1) = [x])"
  proof (cases "filter ?key (Budget db)")
    case Nil
    from set_monthly_budget_absent [OF Nil usr, of a1] show ?thesis by blast
  next
    case (Cons x xs)
    with le1 have "filter ?key (Budget db) = [x]" by simp
    from set_monthly_budget_existing [OF this, of a1] show ?thesis by blast
  qed
  then obtain x where x: "filter ?key (Budget ?db1) = [x]" by blast
  from set_monthly_budget_existing [OF x, of a2]
  have second: "fst (Budget_set_monthly_budget m a2 u ?db1) = Inr ()"
    and rows: "filter ?key (Budget ?db2) = [x\<lparr>b_amount := a2\<rparr>]" by simp_all
  from rows have "Budget_get_monthly_budget m u ?db2 = Some a2"
    by (simp add: Budget_get_monthly_budget_def)
  with first second rows show ?thesis by simp
qed

text \<open>The example of the specification: 500, then 700, for January 2025.\<close>

theorem budget_upsert_overwrites_witness:
  "budget_key_unique store_one_user \<and> user_exists 1 store_one_user \<and>
   length (filter (\<lambda>r. b_month r = ''2025-01'' \<and> b_user_id r = 1)
      (Budget (snd (Budget_set_monthly_budget ''2025-01'' 700 1
                 (snd (Budget_set_monthly_budget ''2025-01'' 500 1 store_one_user)))))) = 1 \<and>
   Budget_get_monthly_budget ''2025-01'' 1
      (snd (Budget_set_monthly_budget ''2025-01'' 700 1
         (snd (Budget_set_monthly_budget ''2025-01'' 500 1 store_one_user)))) = Some 700"
proof -
  have uniq: "budget_key_unique store_one_user"
    by (simp add: budget_key_unique_def store_one_user_def init_db_def)
  have usr: "user_exists 1 store_one_user"
    by (simp add: user_exists_def store_one_user_def init_db_def)
  from budget_upsert_overwrites [OF uniq usr, of "''2025-01''" 500 700] uniq usr
  show ?thesis by simp
qed

text \<open>
  Claim C10.  Let the recurring payment \<open>p\<close> belong to user \<open>u\<close> and have the stored
  frequency \<open>f\<close>.  Then \<^verbatim>\<open>mark_as_paid\<close> applies the rollover rule to the caller's
  payment date and \<open>f\<close>, and its outcome is the outcome of the rule: the text of the date
  the rule returns becomes the due date of that row, or the exception the rule (or the
  parsing of the payment date) raises is raised and nothing is stored.  The stored due
  date plays no part; the row's name, amount, frequency and owner, and every other row,
  stay as they were.
\<close>

theorem mark_as_paid_rolls_over_payment_date:
  assumes pk: "distinct (map p_id (RecurringPayments db))"
    and r: "r \<in> set (RecurringPayments db)" "p_id r = p" "p_user_id r = u" "p_frequency r = f"
  shows "RecurringPayment_mark_as_paid p payment_date u db =
      (case strptime_Ymd payment_date of
         Inl e \<Rightarrow> (Inl e, db)
       | Inr paid_on \<Rightarrow>
          (case calculate_next_due_date paid_on f of
             Inl e \<Rightarrow> (Inl e, db)
           | Inr next_due \<Rightarrow>
              (Inr (), db\<lparr>RecurringPayments :=
                  map (\<lambda>x. if x = r then r\<lparr>p_due_date := strftime_Ymd next_due\<rparr> else x)
                    (RecurringPayments db)\<rparr>)))"
proof -
  let ?own = "\<lambda>x. p_id x = p \<and> p_user_id x = u"
  have same: "x = r" if "x \<in> set (RecurringPayments db)" "p_id x = p" for x
    using distinct_map_eq [OF pk that(1) r(1)] that(2) r(2) by simp
  have "r \<in> set (filter ?own (RecurringPayments db))" using r by simp
  then obtain y ys where f: "filter ?own (RecurringPayments db) = y # ys"
    by (cases "filter ?own (RecurringPayments db)") auto
  then have "y \<in> set (filter ?own (RecurringPayments db))" by simp
  then have y: "y = r" using same by simp
  have m: "map (\<lambda>x. if ?own x then x\<lparr>p_due_date := s\<rparr> else x) (RecurringPayments db)
         = map (\<lambda>x. if x = r then r\<lparr>p_due_date := s\<rparr> else x) (RecurringPayments db)" for s
  proof (rule map_cong [OF refl])
    fix x assume x: "x \<in> set (RecurringPayments db)"
    show "(if ?own x then x\<lparr>p_due_date := s\<rparr> else x)
            = (if x = r then r\<lparr>p_due_date := s\<rparr> else x)"
    proof (cases "x = r")
      case True
      then show ?thesis using r(2,3) by simp
    next
      case False
      with same [OF x] have "p_id x \<noteq> p" by blast
      with False show ?thesis by simp
    qed
  qed
  have freq: "p_frequency y = f" using y r(4) by simp
  show ?thesis
    unfolding RecurringPayment_mark_as_paid_def f list.case Let_def freq m
    by (simp split: sum.splits)
qed

text \<open>
  The sample payment is monthly and due on the 14th.  Paid on 31 January 2024, its next due
  date is 28 February 2024: one month after the payment date, not after the stored due
  date.  Paid on 15 December 9999, the rule raises, and so does \<^verbatim>\<open>mark_as_paid\<close>, with
  the store unchanged.
\<close>

theorem mark_as_paid_rolls_over_payment_date_witness:
  "distinct (map p_id (RecurringPayments sample_store)) \<and>
   \<lparr>p_id = 1, p_name = ''Rent'', p_amount = 1000, p_due_date = ''2024-01-14'',
     p_frequency = ''Monthly'', p_user_id = 1\<rparr> \<in> set (RecurringPayments sample_store) \<and>
   RecurringPayment_mark_as_paid 1 ''2024-01-31'' 1 sample_store =
     (Inr (), sample_store\<lparr>RecurringPayments :=
        [\<lparr>p_id = 1, p_name = ''Rent'', p_amount = 1000, p_due_date = ''2024-02-28'',
          p_frequency = ''Monthly'', p_user_id = 1\<rparr>]\<rparr>) \<and>
   RecurringPayment_mark_as_paid 1 ''9999-12-15'' 1 sample_store =
     (Inl (ValueError ''year is out of range''), sample_store)"
proof -
  let ?r = "\<lparr>p_id = 1, p_name = ''Rent'', p_amount = 1000, p_due_date = ''2024-01-14'',
              p_frequency = ''Monthly'', p_user_id = 1\<rparr>"
  have rows: "RecurringPayments sample_store = [?r]" by (simp add: sample_store_def)
  have pk: "distinct (map p_id (RecurringPayments sample_store))" by (simp add: rows)
  have r: "?r \<in> set (RecurringPayments sample_store)" by (simp add: rows)
  have pd: "strptime_Ymd ''2024-01-31'' = Inr \<lparr>year = 2024, month = 1, day = 31\<rparr>"
    by (simp add: strptime_Ymd_def is_digit_def is_digit19_def int_of_digits_def digit_val_def
          mk_date_def MINYEAR_def MAXYEAR_def days_in_month_def)
  have nx: "calculate_next_due_date \<lparr>year = 2024, month = 1, day = 31\<rparr> ''Monthly''
              = Inr \<lparr>year = 2024, month = 2, day = 28\<rparr>"
    by (simp add: calculate_next_due_date_def mk_date_def MINYEAR_def MAXYEAR_def
          days_in_month_def)
  have written: "strftime_Ymd \<lparr>year = 2024, month = 2, day = 28\<rparr> = ''2024-02-28''"
    by (simp add: strftime_Ymd_def year_text_def pad4_def pad2_def digit_char_def)
  have pd9: "strptime_Ymd ''9999-12-15'' = Inr \<lparr>year = 9999, month = 12, day = 15\<rparr>"
    by (simp add: strptime_Ymd_def is_digit_def is_digit19_def int_of_digits_def digit_val_def
          mk_date_def MINYEAR_def MAXYEAR_def days_in_month_def)
  have nx9: "calculate_next_due_date \<lparr>year = 9999, month = 12, day = 15\<rparr> ''Monthly''
              = Inl (ValueError ''year is out of range'')"
    by (simp add: calculate_next_due_date_def mk_date_def MINYEAR_def MAXYEAR_def)
  have paid: "RecurringPayment_mark_as_paid 1 ''2024-01-31'' 1 sample_store =
      (Inr (), sample_store\<lparr>RecurringPayments :=
         map (\<lambda>x. if x = ?r then ?r\<lparr>p_due_date := ''2024-02-28''\<rparr> else x)
           (RecurringPayments sample_store)\<rparr>)"
    using mark_as_paid_rolls_over_payment_date
            [OF pk r, where p = 1 and u = 1 and f = "''Monthly''"
               and payment_date = "''2024-01-31''"]
    by (simp add: pd nx written)
  have refused: "RecurringPayment_mark_as_paid 1 ''9999-12-15'' 1 sample_store =
      (Inl (ValueError ''year is out of range''), sample_store)"
    using mark_as_paid_rolls_over_payment_date
            [OF pk r, where p = 1 and u = 1 and f = "''Monthly''"
               and payment_date = "''9999-12-15''"]
    by (simp add: pd9 nx9)
  from paid have "RecurringPayment_mark_as_paid 1 ''2024-01-31'' 1 sample_store =
     (Inr (), sample_store\<lparr>RecurringPayments :=
        [\<lparr>p_id = 1, p_name = ''Rent'', p_amount = 1000, p_due_date = ''2024-02-28'',
          p_frequency = ''Monthly'', p_user_id = 1\<rparr>]\<rparr>)"
    by (simp add: rows)
  with pk r refused show ?thesis by blast
qed

section \<open>Properties of the alert evaluator\<close>

text \<open>
  Claim C7, amended.  When a budget is set for the current month, \<^verbatim>\<open>check_budget\<close>
  shows the budget-exceeded dialog if and only if the spending it computes, the value that
  \<^verbatim>\<open>get_spending_since\<close> returns for the first of the month, is strictly greater than
  the budget: computed spending equal to the budget shows nothing, any computed spending
  above it shows the dialog.  This holds however the store's SUM rounds.
\<close>

theorem budget_alert_iff_strictly_over:
  "Budget_get_monthly_budget (strftime_Ym today) u db = Some b \<Longrightarrow>
   check_budget sum_aggregate today u db =
     (if b < Expense_get_spending_since sum_aggregate (strftime_Ymd (today\<lparr>day := 1\<rparr>)) u db
      then [BudgetExceeded b
              (Expense_get_spending_since sum_aggregate (strftime_Ymd (today\<lparr>day := 1\<rparr>)) u db)]
      else []) \<and>
   ((\<exists>x y. BudgetExceeded x y \<in> set (check_budget sum_aggregate today u db)) =
      (b < Expense_get_spending_since sum_aggregate (strftime_Ymd (today\<lparr>day := 1\<rparr>)) u db))"
  by (simp add: check_budget_def Let_def)

text \<open>
  In the sample store, summed as SQLite sums, the spending of January 2025 is 500 against
  a budget of 500: no dialog.  With 0.5 more spent it is 500.5: the dialog is shown.
\<close>

theorem budget_alert_iff_strictly_over_witness:
  "Budget_get_monthly_budget (strftime_Ym \<lparr>year = 2025, month = 1, day = 15\<rparr>) 1 sample_store
     = Some 500 \<and>
   Expense_get_spending_since binary64_sum ''2025-01-01'' 1 sample_store = 500 \<and>
   check_budget binary64_sum \<lparr>year = 2025, month = 1, day = 15\<rparr> 1 sample_store = [] \<and>
   Budget_get_monthly_budget (strftime_Ym \<lparr>year = 2025, month = 1, day = 15\<rparr>) 1 sample_store_over
     = Some 500 \<and>
   Expense_get_spending_since binary64_sum ''2025-01-01'' 1 sample_store_over = 1001 / 2 \<and>
   check_budget binary64_sum \<lparr>year = 2025, month = 1, day = 15\<rparr> 1 sample_store_over
     = [BudgetExceeded 500 (1001 / 2)]"
proof -
  let ?today = "\<lparr>year = 2025, month = 1, day = 15\<rparr>"
  have ym: "strftime_Ym ?today = ''2025-01''"
    by (simp add: strftime_Ym_def year_text_def pad4_def pad2_def digit_char_def)
  have ymd: "strftime_Ymd \<lparr>year = 2025, month = 1, day = 1\<rparr> = ''2025-01-01''"
    by (simp add: strftime_Ymd_def year_text_def pad4_def pad2_def digit_char_def)
  have b1: "Budget_get_monthly_budget (strftime_Ym ?today) 1 sample_store = Some 500"
    by (simp add: ym Budget_get_monthly_budget_def sample_store_def)
  have b2: "Budget_get_monthly_budget (strftime_Ym ?today) 1 sample_store_over = Some 500"
    by (simp add: ym Budget_get_monthly_budget_def sample_store_over_def sample_store_def)
  have r1: "map e_amount (filter (\<lambda>r. ''2025-01-01'' \<le> e_date r \<and> e_user_id r = 1)
              (Expenses sample_store)) = [300, 200]"
    by (simp add: sample_store_def)
  have r2: "map e_amount (filter (\<lambda>r. ''2025-01-01'' \<le> e_date r \<and> e_user_id r = 1)
              (Expenses sample_store_over)) = [300, 200, 1 / 2]"
    by (simp add: sample_store_over_def sample_store_def)
  have s1: "Expense_get_spending_since binary64_sum ''2025-01-01'' 1 sample_store = 500"
    unfolding Expense_get_spending_since_def r1 sql_SUM_def
    by (simp add: binary64_sum_300_200)
  have s2: "Expense_get_spending_since binary64_sum ''2025-01-01'' 1 sample_store_over
              = 1001 / 2"
    unfolding Expense_get_spending_since_def r2 sql_SUM_def
    by (simp add: binary64_sum_300_200_half)
  from budget_alert_iff_strictly_over [OF b1, of binary64_sum]
  have c1: "check_budget binary64_sum ?today 1 sample_store = []"
    by (simp add: ymd s1)
  from budget_alert_iff_strictly_over [OF b2, of binary64_sum]
  have c2: "check_budget binary64_sum ?today 1 sample_store_over
              = [BudgetExceeded 500 (1001 / 2)]"
    by (simp add: ymd s2)
  from b1 s1 c1 b2 s2 c2 show ?thesis by blast
qed

text \<open>
  The claim as stated, for the exact sum of the month's amounts, fails where the sum
  rounds.  With expenses of ten quadrillion and of one against a budget of ten quadrillion,
  the amounts add up to one more than the budget, the spending the evaluator computes is
  the budget, and no dialog is shown.
\<close>

theorem budget_alert_iff_strictly_over_counterexample:
  "Budget_get_monthly_budget (strftime_Ym \<lparr>year = 2025, month = 1, day = 15\<rparr>) 1 rounding_store
     = Some 10000000000000000 \<and>
   map e_user_id (Expenses rounding_store) = [1, 1] \<and>
   map e_date (Expenses rounding_store) = [''2025-01-03'', ''2025-01-03''] \<and>
   strftime_Ymd \<lparr>year = 2025, month = 1, day = 1\<rparr> \<le> ''2025-01-03'' \<and>
   10000000000000000 < sum_list (map e_amount (Expenses rounding_store)) \<and>
   check_budget binary64_sum \<lparr>year = 2025, month = 1, day = 15\<rparr> 1 rounding_store = []"
proof -
  have ym: "strftime_Ym \<lparr>year = 2025, month = 1, day = 15\<rparr> = ''2025-01''"
    by (simp add: strftime_Ym_def year_text_def pad4_def pad2_def digit_char_def)
  have ymd: "strftime_Ymd \<lparr>year = 2025, month = 1, day = 1\<rparr> = ''2025-01-01''"
    by (simp add: strftime_Ymd_def year_text_def pad4_def pad2_def digit_char_def)
  have b: "Budget_get_monthly_budget ''2025-01'' 1 rounding_store = Some 10000000000000000"
    by (simp add: Budget_get_monthly_budget_def rounding_store_def)
  have all: "map e_user_id (Expenses rounding_store) = [1, 1]"
       "map e_date (Expenses rounding_store) = [''2025-01-03'', ''2025-01-03'']"
       "10000000000000000 < sum_list (map e_amount (Expenses rounding_store))"
    by (simp_all add: rounding_store_def)
  have rows: "map e_amount (filter (\<lambda>r. ''2025-01-01'' \<le> e_date r \<and> e_user_id r = 1)
      (Expenses rounding_store)) = [10000000000000000, 1]"
    by (simp add: rounding_store_def)
  have s: "Expense_get_spending_since binary64_sum ''2025-01-01'' 1 rounding_store
          = 10000000000000000"
    unfolding Expense_get_spending_since_def rows sql_SUM_def
    by (simp add: binary64_sum_absorbs_one)
  have c: "check_budget binary64_sum \<lparr>year = 2025, month = 1, day = 15\<rparr> 1 rounding_store = []"
    by (simp add: check_budget_def Let_def ym ymd b s)
  from b all c show ?thesis by (simp add: ym ymd)
qed

text \<open>
  Spending of 0.1 and 0.2 against a budget of 0.3: the spending the evaluator computes is
  0.30000000000000004, strictly above the budget, and the dialog is shown.
\<close>

lemma budget_alert_on_rounded_tenths:
  "check_budget binary64_sum \<lparr>year = 2025, month = 1, day = 15\<rparr> 1 tenths_store
     = [BudgetExceeded three_tenths three_tenths_up]"
proof -
  have ym: "strftime_Ym \<lparr>year = 2025, month = 1, day = 15\<rparr> = ''2025-01''"
    by (simp add: strftime_Ym_def year_text_def pad4_def pad2_def digit_char_def)
  have ymd: "strftime_Ymd \<lparr>year = 2025, month = 1, day = 1\<rparr> = ''2025-01-01''"
    by (simp add: strftime_Ymd_def year_text_def pad4_def pad2_def digit_char_def)
  have b: "Budget_get_monthly_budget ''2025-01'' 1 tenths_store = Some three_tenths"
    by (simp add: Budget_get_monthly_budget_def tenths_store_def)
  have rows: "map e_amount (filter (\<lambda>r. ''2025-01-01'' \<le> e_date r \<and> e_user_id r = 1)
                (Expenses tenths_store)) = [tenth, two_tenths]"
    by (simp add: tenths_store_def)
  have s: "Expense_get_spending_since binary64_sum ''2025-01-01'' 1 tenths_store
             = three_tenths_up"
    unfolding Expense_get_spending_since_def rows sql_SUM_def
    using tenths_order(3) by (simp add: binary64_sum_tenths)
  show ?thesis
    using tenths_order(2) by (simp add: check_budget_def Let_def ym ymd b s)
qed

text \<open>The evaluator writes nothing: whatever it finds, the store it leaves is the one it read.\<close>

lemma payments_loop_store:
  "snd (snd (payments_loop today payments db shown)) = db"
proof (induction payments arbitrary: shown)
  case Nil
  then show ?case by simp
next
  case (Cons a payments)
  obtain payment_id name amount due_date_str frequency
    where a: "a = (payment_id, name, amount, due_date_str, frequency)" by (cases a) auto
  show ?case unfolding a
    by (simp add: Cons.IH RecurringPayment_update_due_date_def Let_def split: sum.splits)
qed

lemma check_recurring_payments_store:
  "snd (check_recurring_payments today current_user_id db) = db"
proof -
  obtain res shown db'
    where p: "payments_loop today (RecurringPayment_get_all current_user_id db) db []
                = (res, shown, db')"
    by (cases "payments_loop today (RecurringPayment_get_all current_user_id db) db []") auto
  with payments_loop_store [of today "RecurringPayment_get_all current_user_id db" db "[]"]
  have "db' = db" by simp
  with p show ?thesis by (simp add: check_recurring_payments_def split: sum.splits)
qed

text \<open>
  Claim C2.  The sample payment was due on 14 January 2024 and is monthly.  Evaluated on
  15 January 2024 it is overdue by one day, and the rule gives 14 February 2024 as its next
  due date; but the evaluator then calls \<^verbatim>\<open>RecurringPayment.update_due_date\<close>, which the
  class does not define.  The pass ends in an error dialog, and the stored due date is still
  14 January 2024.
\<close>

theorem overdue_payment_is_not_advanced:
  "RecurringPayment_get_all 1 sample_store
     = [(1, ''Rent'', 1000, ''2024-01-14'', ''Monthly'')] \<and>
   toordinal \<lparr>year = 2024, month = 1, day = 14\<rparr>
     - toordinal \<lparr>year = 2024, month = 1, day = 15\<rparr> = - 1 \<and>
   calculate_next_due_date \<lparr>year = 2024, month = 1, day = 14\<rparr> ''Monthly''
     = Inr \<lparr>year = 2024, month = 2, day = 14\<rparr> \<and>
   check_recurring_payments \<lparr>year = 2024, month = 1, day = 15\<rparr> 1 sample_store
     = ([ErrorDialog (AttributeError ''RecurringPayment has no attribute update_due_date'')],
        sample_store) \<and>
   RecurringPayment_get_all 1
       (snd (check_recurring_payments \<lparr>year = 2024, month = 1, day = 15\<rparr> 1 sample_store))
     = [(1, ''Rent'', 1000, ''2024-01-14'', ''Monthly'')]"
proof -
  have rows: "RecurringPayment_get_all 1 sample_store
                = [(1, ''Rent'', 1000, ''2024-01-14'', ''Monthly'')]"
    by (simp add: RecurringPayment_get_all_def sample_store_def)
  have due: "strptime_Ymd ''2024-01-14'' = Inr \<lparr>year = 2024, month = 1, day = 14\<rparr>"
    by (simp add: strptime_Ymd_def is_digit_def is_digit19_def int_of_digits_def digit_val_def
          mk_date_def MINYEAR_def MAXYEAR_def days_in_month_def)
  have days: "toordinal \<lparr>year = 2024, month = 1, day = 14\<rparr>
                - toordinal \<lparr>year = 2024, month = 1, day = 15\<rparr> = - 1"
    by (simp add: toordinal_def)
  have nx: "calculate_next_due_date \<lparr>year = 2024, month = 1, day = 14\<rparr> ''Monthly''
              = Inr \<lparr>year = 2024, month = 2, day = 14\<rparr>"
    by (simp add: calculate_next_due_date_def mk_date_def MINYEAR_def MAXYEAR_def
          days_in_month_def)
  have pass: "check_recurring_payments \<lparr>year = 2024, month = 1, day = 15\<rparr> 1 sample_store
     = ([ErrorDialog (AttributeError ''RecurringPayment has no attribute update_due_date'')],
        sample_store)"
    by (simp add: check_recurring_payments_def rows due days nx
          RecurringPayment_update_due_date_def)
  from rows days nx pass show ?thesis by simp
qed

end
